theory Spec2Isabelle
  imports Main "HOL-Library.Word" "HOL-Library.Multiset"
begin

section \<open>Strings and parsed JSON values\<close>

text \<open>
  A JavaScript string is a sequence of UTF-16 code units. ASCII literals of the source are
  written \<open>js ''...''\<close>.
\<close>

type_synonym jschar = "16 word"
type_synonym jsstring = "jschar list"

definition js :: "string \<Rightarrow> jsstring" where
  "js s = map of_char s"

text \<open>
  \<open>String.prototype.trim\<close> strips the ECMAScript WhiteSpace and LineTerminator code
  points from both ends: TAB, LF, VT, FF, CR, SPACE, NBSP, the other space separators
  (category Zs), LS, PS and the byte order mark. All of them are single code units.
\<close>

definition isWhiteSpace :: "jschar \<Rightarrow> bool" where
  "isWhiteSpace c = (c \<in> set [0x9, 0xA, 0xB, 0xC, 0xD, 0x20, 0xA0, 0x1680,
     0x2000, 0x2001, 0x2002, 0x2003, 0x2004, 0x2005, 0x2006, 0x2007, 0x2008, 0x2009, 0x200A,
     0x2028, 0x2029, 0x202F, 0x205F, 0x3000, 0xFEFF])"

definition trim :: "jsstring \<Rightarrow> jsstring" where
  "trim s = rev (dropWhile isWhiteSpace (rev (dropWhile isWhiteSpace s)))"

text \<open>Decimal rendering of numbers inside template strings.\<close>

fun showNat :: "nat \<Rightarrow> jsstring" where
  "showNat n = (if n < 10 then [of_nat (48 + n)]
                else showNat (n div 10) @ [of_nat (48 + n mod 10)])"

declare showNat.simps [simp del]

definition showInt :: "int \<Rightarrow> jsstring" where
  "showInt i = (if i < 0 then js ''-'' @ showNat (nat (- i)) else showNat (nat i))"

text \<open>
  The values \<open>JSON.parse\<close> produces. The payload of a number is never inspected by the
  program, so its type is left open.
\<close>

datatype 'n jsval =
    JNull
  | JBool bool
  | JNum 'n
  | JStr jsstring
  | JArr "'n jsval list"
  | JObj "(jsstring \<times> 'n jsval) list"

datatype jstype = TObject | TBoolean | TNumber | TString

text \<open>\<open>typeof\<close>: \<open>null\<close> and arrays are of type \<open>'object'\<close>.\<close>

fun typeof :: "'n jsval \<Rightarrow> jstype" where
  "typeof JNull = TObject"
| "typeof (JBool _) = TBoolean"
| "typeof (JNum _) = TNumber"
| "typeof (JStr _) = TString"
| "typeof (JArr _) = TObject"
| "typeof (JObj _) = TObject"

text \<open>
  Property access \<open>v.k\<close> after the cast to \<open>Record<string, unknown>\<close>; \<open>None\<close> is
  \<open>undefined\<close>. An object is the list of its own properties (the first binding of a key
  counts). The program reads the properties \<open>machine_name\<close>, \<open>sources\<close>, \<open>name\<close>,
  \<open>path\<close> and \<open>enabled\<close> only, which arrays and primitive values do not have.
\<close>

fun getProp :: "'n jsval \<Rightarrow> jsstring \<Rightarrow> 'n jsval option" where
  "getProp (JObj fs) k = map_of fs k"
| "getProp _ k = None"

section \<open>Data model (types.ts)\<close>

record BackupSource =
  name :: jsstring
  path :: jsstring
  enabled :: bool

record MachineConfig =
  machine_name :: jsstring
  sources :: "BackupSource list"

record BackupResult =
  source :: BackupSource
  success :: bool
  error :: "jsstring option"
  duration :: "int option"

record BackupSummary =
  machine :: jsstring
  startTime :: int
  endTime :: int
  totalSources :: nat
  successCount :: nat
  failCount :: nat
  skippedCount :: int
  results :: "BackupResult list"
  dryRun :: bool

datatype LogLevel = INFO | SUCCESS | WARN | ERROR

record CliOptions =
  optDryRun :: bool
  optVerbose :: bool
  optListOnly :: bool
  optInit :: bool
  optCheckTools :: bool

record ToolCheck =
  allGood :: bool
  rcloneInstalled :: bool
  rclonePath :: "jsstring option"
  rcloneVersion :: "jsstring option"

record PathConfig =
  backupRoot :: jsstring
  configDir :: jsstring
  machineConfigsDir :: jsstring
  logsDir :: jsstring
  backupsDir :: jsstring
  filtersFile :: jsstring

section \<open>Errors\<close>

text \<open>One constructor for each \<open>throw new Error(...)\<close> of the program.\<close>

datatype err =
    ConfigNotObject
  | ConfigMissingMachineName
  | ConfigMissingSources
  | SourceNotObject nat
  | SourceMissingName nat
  | SourceMissingPath nat
  | SourceMissingEnabled nat
  | ConfigFileNotFound jsstring
  | ConfigParseFailed jsstring jsstring
  | ReadFailed jsstring
  | RcloneFailed jsstring
  | RcloneSpawnFailed jsstring

fun message :: "err \<Rightarrow> jsstring" where
  "message ConfigNotObject = js ''Config must be a valid JSON object''"
| "message ConfigMissingMachineName = js ''Config missing 'machine_name' field''"
| "message ConfigMissingSources = js ''Config missing 'sources' array''"
| "message (SourceNotObject i) = js ''Source at index '' @ showNat i @ js '' is not an object''"
| "message (SourceMissingName i) =
     js ''Source at index '' @ showNat i @ js '' missing valid 'name' field''"
| "message (SourceMissingPath i) =
     js ''Source at index '' @ showNat i @ js '' missing valid 'path' field''"
| "message (SourceMissingEnabled i) =
     js ''Source at index '' @ showNat i @ js '' missing valid 'enabled' field''"
| "message (ConfigFileNotFound p) =
     js ''Configuration file not found: '' @ p @ [0xA]
       @ js ''Run with --init flag to create initial configuration''"
| "message (ConfigParseFailed p m) =
     js ''Failed to parse configuration file: '' @ p @ [0xA] @ m"
| "message (ReadFailed m) = m"
| "message (RcloneFailed m) = m"
| "message (RcloneSpawnFailed m) = js ''Failed to spawn rclone: '' @ m"

section \<open>Configuration validator (config.ts)\<close>

definition validateSource :: "'n jsval \<Rightarrow> nat \<Rightarrow> err + BackupSource" where
  "validateSource src index =
     (if typeof src \<noteq> TObject \<or> src = JNull then Inl (SourceNotObject index)
      else case getProp src (js ''name'') of
        Some (JStr n) \<Rightarrow>
          if trim n = [] then Inl (SourceMissingName index)
          else (case getProp src (js ''path'') of
            Some (JStr p) \<Rightarrow>
              if trim p = [] then Inl (SourceMissingPath index)
              else (case getProp src (js ''enabled'') of
                Some (JBool e) \<Rightarrow> Inr \<lparr>name = trim n, path = trim p, enabled = e\<rparr>
              | _ \<Rightarrow> Inl (SourceMissingEnabled index))
          | _ \<Rightarrow> Inl (SourceMissingPath index))
      | _ \<Rightarrow> Inl (SourceMissingName index))"

text \<open>
  \<open>config.sources.map((s, i) => validateSource(s, i))\<close>: the elements are validated in
  index order and the first exception ends the whole map.
\<close>

fun validateSources :: "'n jsval list \<Rightarrow> nat \<Rightarrow> err + BackupSource list" where
  "validateSources [] i = Inr []"
| "validateSources (s # ss) i =
     (case validateSource s i of
        Inl e \<Rightarrow> Inl e
      | Inr b \<Rightarrow> (case validateSources ss (Suc i) of
                   Inl e \<Rightarrow> Inl e
                 | Inr bs \<Rightarrow> Inr (b # bs)))"

definition validateConfig :: "'n jsval \<Rightarrow> err + MachineConfig" where
  "validateConfig data =
     (if typeof data \<noteq> TObject \<or> data = JNull then Inl ConfigNotObject
      else case getProp data (js ''machine_name'') of
        Some (JStr m) \<Rightarrow>
          (case getProp data (js ''sources'') of
             Some (JArr xs) \<Rightarrow>
               (case validateSources xs 0 of
                  Inl e \<Rightarrow> Inl e
                | Inr ss \<Rightarrow> Inr \<lparr>machine_name = m, sources = ss\<rparr>)
           | _ \<Rightarrow> Inl ConfigMissingSources)
      | _ \<Rightarrow> Inl ConfigMissingMachineName)"

definition getEnabledSources :: "MachineConfig \<Rightarrow> BackupSource list" where
  "getEnabledSources config = filter enabled (sources config)"

section \<open>The world outside the program\<close>

text \<open>
  The state the program reads and changes: the file system (which paths exist, as a
  directory or as a file with its text), how often the clock has been read, the lines
  printed on the console, and the argument list of every \<open>rclone\<close> process spawned.
\<close>

datatype node = Dir | File jsstring

record world =
  files :: "jsstring \<rightharpoonup> node"
  reads :: nat
  console :: "jsstring list"
  spawned :: "jsstring list list"

text \<open>What a child process started with \<open>spawn\<close> reports: the \<open>'error'\<close> event with
  its message, or the \<open>'close'\<close> event with the exit code (\<open>null\<close> after a signal) and the
  text the process wrote to standard error.\<close>

datatype procResult = SpawnError jsstring | Closed "int option" jsstring

text \<open>
  What Node and the operating system supply: the working directory, the host name, the
  platform, \<open>path.join\<close>, the chain of parent directories of a path, the value of each
  successive clock reading, the local calendar fields of a time (year, month from 0, day,
  hours, minutes, seconds), \<open>JSON.parse\<close> (\<open>Inl\<close> the message of its SyntaxError),
  \<open>JSON.stringify(_, null, 2)\<close> on a configuration, what \<open>spawnSync\<close> reports for a
  command (exit status and standard output), the first group of the version pattern matched in \<open>getRcloneVersion\<close> and the
  \<open>rclone\<close> executable itself, which may change the world in any way. All theorems hold
  for every such platform.
\<close>

record 'n platform =
  cwd :: jsstring
  hostname :: jsstring
  win32 :: bool
  join :: "jsstring list \<Rightarrow> jsstring"
  ancestors :: "jsstring \<Rightarrow> jsstring list"
  clock :: "nat \<Rightarrow> int"
  localtime :: "int \<Rightarrow> int \<times> int \<times> int \<times> int \<times> int \<times> int"
  JSON_parse :: "jsstring \<Rightarrow> jsstring + 'n jsval"
  JSON_stringify :: "MachineConfig \<Rightarrow> jsstring"
  spawnSync :: "jsstring \<Rightarrow> jsstring list \<Rightarrow> int option \<times> jsstring"
  matchVersion :: "jsstring \<Rightarrow> jsstring option"
  rclone :: "jsstring list \<Rightarrow> bool \<Rightarrow> world \<Rightarrow> procResult \<times> world"

text \<open>
  File-system calls are total in the model. Where Node would throw an I/O error that the
  program catches nowhere (a file in the place of a directory to create, a directory in the
  place of the log file), the call leaves that path as it is.
\<close>

definition existsSync :: "world \<Rightarrow> jsstring \<Rightarrow> bool" where
  "existsSync w p = (files w p \<noteq> None)"

text \<open>\<open>mkdirSync(p, { recursive: true })\<close>: creates \<open>p\<close> and every missing parent.\<close>

definition mkdirSync :: "'n platform \<Rightarrow> jsstring \<Rightarrow> world \<Rightarrow> world" where
  "mkdirSync pf p w =
     w\<lparr>files := foldr (\<lambda>q f. if f q = None then f(q \<mapsto> Dir) else f)
                    (p # ancestors pf p) (files w)\<rparr>"

text \<open>\<open>readFileSync(p, 'utf-8')\<close>; the program calls it only on a path that exists, where
  it fails on a directory with the error of the platform.\<close>

definition readFileSync :: "world \<Rightarrow> jsstring \<Rightarrow> err + jsstring" where
  "readFileSync w p =
     (case files w p of
        Some (File c) \<Rightarrow> Inr c
      | Some Dir \<Rightarrow> Inl (ReadFailed (js ''EISDIR: illegal operation on a directory, read''))
      | None \<Rightarrow> Inl (ReadFailed (js ''ENOENT: no such file or directory'')))"

definition writeFileSync :: "jsstring \<Rightarrow> jsstring \<Rightarrow> world \<Rightarrow> world" where
  "writeFileSync p c w = w\<lparr>files := (files w)(p \<mapsto> File c)\<rparr>"

definition appendFileSync :: "jsstring \<Rightarrow> jsstring \<Rightarrow> world \<Rightarrow> world" where
  "appendFileSync p c w =
     (case files w p of
        None \<Rightarrow> w\<lparr>files := (files w)(p \<mapsto> File c)\<rparr>
      | Some (File old) \<Rightarrow> w\<lparr>files := (files w)(p \<mapsto> File (old @ c))\<rparr>
      | Some Dir \<Rightarrow> w)"

text \<open>\<open>new Date()\<close> and \<open>Date.now()\<close>: the next clock reading.\<close>

definition now :: "'n platform \<Rightarrow> world \<Rightarrow> int \<times> world" where
  "now pf w = (clock pf (reads w), w\<lparr>reads := Suc (reads w)\<rparr>)"

section \<open>Path resolver (config.ts)\<close>

definition getBackupRoot :: "'n platform \<Rightarrow> jsstring" where
  "getBackupRoot pf = cwd pf"

definition getPaths :: "'n platform \<Rightarrow> PathConfig" where
  "getPaths pf =
     (let root = getBackupRoot pf in
      \<lparr>backupRoot = root,
       configDir = join pf [root, js ''config''],
       machineConfigsDir = join pf [root, js ''config'', js ''machine-configs''],
       logsDir = join pf [root, js ''logs''],
       backupsDir = join pf [root, js ''backups''],
       filtersFile = join pf [root, js ''config'', js ''filters.txt'']\<rparr>)"

definition getMachineName :: "'n platform \<Rightarrow> jsstring" where
  "getMachineName pf = hostname pf"

definition getMachineConfigPath :: "'n platform \<Rightarrow> jsstring" where
  "getMachineConfigPath pf =
     join pf [machineConfigsDir (getPaths pf), getMachineName pf @ js ''.json'']"

definition validateBackupRoot :: "'n platform \<Rightarrow> world \<Rightarrow> bool" where
  "validateBackupRoot pf w = existsSync w (backupRoot (getPaths pf))"

section \<open>Loading and initialising the configuration (config.ts)\<close>

definition loadConfig :: "'n platform \<Rightarrow> jsstring option \<Rightarrow> world \<Rightarrow> err + MachineConfig" where
  "loadConfig pf configPath w =
     (let p = (case configPath of Some q \<Rightarrow> q | None \<Rightarrow> getMachineConfigPath pf) in
      if \<not> existsSync w p then Inl (ConfigFileNotFound p)
      else case readFileSync w p of
        Inl e \<Rightarrow> Inl e
      | Inr content \<Rightarrow>
          (case JSON_parse pf content of
             Inl m \<Rightarrow> Inl (ConfigParseFailed p m)
           | Inr data \<Rightarrow> validateConfig data))"

definition template :: "'n platform \<Rightarrow> MachineConfig" where
  "template pf =
     \<lparr>machine_name = getMachineName pf,
      sources = [\<lparr>name = js ''ExampleProject'',
                  path = (if win32 pf
                          then js ''C:'' @ [0x5C] @ js ''Path'' @ [0x5C] @ js ''To'' @ [0x5C]
                               @ js ''Project'' @ [0x5C] @ js ''_docs''
                          else js ''/path/to/project/_docs''),
                  enabled = False\<rparr>]\<rparr>"

definition initializeConfig :: "'n platform \<Rightarrow> world \<Rightarrow> jsstring \<times> world" where
  "initializeConfig pf w =
     (let paths = getPaths pf;
          configPath = getMachineConfigPath pf;
          w1 = (if \<not> existsSync w (machineConfigsDir paths)
                then mkdirSync pf (machineConfigsDir paths) w else w)
      in if existsSync w1 configPath then (configPath, w1)
         else (configPath, writeFileSync configPath (JSON_stringify pf (template pf)) w1))"

section \<open>Logger (logger.ts)\<close>

text \<open>The logger is never reconfigured: it writes every entry to the console and to
  the log file of the day.\<close>

definition colorReset :: jsstring where "colorReset = [0x1B] @ js ''[0m''"

fun getColor :: "LogLevel \<Rightarrow> jsstring" where
  "getColor ERROR = [0x1B] @ js ''[31m''"
| "getColor WARN = [0x1B] @ js ''[33m''"
| "getColor SUCCESS = [0x1B] @ js ''[32m''"
| "getColor INFO = [0x1B] @ js ''[37m''"

fun levelName :: "LogLevel \<Rightarrow> jsstring" where
  "levelName INFO = js ''INFO''"
| "levelName SUCCESS = js ''SUCCESS''"
| "levelName WARN = js ''WARN''"
| "levelName ERROR = js ''ERROR''"

text \<open>\<open>String(n).padStart(2, '0')\<close>\<close>

definition pad2 :: "int \<Rightarrow> jsstring" where
  "pad2 n = (let s = showInt n in replicate (2 - length s) 0x30 @ s)"

definition formatTimestamp :: "'n platform \<Rightarrow> world \<Rightarrow> jsstring \<times> world" where
  "formatTimestamp pf w =
     (let (t, w1) = now pf w;
          (year, month, day, hours, minutes, seconds) = localtime pf t
      in (showInt year @ js ''-'' @ pad2 (month + 1) @ js ''-'' @ pad2 day @ js '' ''
            @ pad2 hours @ js '':'' @ pad2 minutes @ js '':'' @ pad2 seconds, w1))"

definition getDateString :: "'n platform \<Rightarrow> world \<Rightarrow> jsstring \<times> world" where
  "getDateString pf w =
     (let (t, w1) = now pf w;
          (year, month, day, hours, minutes, seconds) = localtime pf t
      in (showInt year @ pad2 (month + 1) @ pad2 day, w1))"

definition getLogFilePath :: "'n platform \<Rightarrow> world \<Rightarrow> jsstring \<times> world" where
  "getLogFilePath pf w =
     (let (d, w1) = getDateString pf w
      in (join pf [logsDir (getPaths pf), js ''syncr_'' @ d @ js ''.log''], w1))"

definition ensureLogDir :: "'n platform \<Rightarrow> world \<Rightarrow> world" where
  "ensureLogDir pf w =
     (if \<not> existsSync w (logsDir (getPaths pf)) then mkdirSync pf (logsDir (getPaths pf)) w
      else w)"

definition writeToFile :: "'n platform \<Rightarrow> jsstring \<Rightarrow> world \<Rightarrow> world" where
  "writeToFile pf msg w =
     (let w1 = ensureLogDir pf w;
          (logFile, w2) = getLogFilePath pf w1
      in appendFileSync logFile (msg @ [0xA]) w2)"

definition log :: "'n platform \<Rightarrow> jsstring \<Rightarrow> LogLevel \<Rightarrow> world \<Rightarrow> world" where
  "log pf msg level w =
     (let (timestamp, w1) = formatTimestamp pf w;
          logMessage = js ''['' @ timestamp @ js ''] ['' @ levelName level @ js ''] '' @ msg;
          w2 = w1\<lparr>console := console w1 @ [getColor level @ logMessage @ colorReset]\<rparr>
      in writeToFile pf logMessage w2)"

definition info :: "'n platform \<Rightarrow> jsstring \<Rightarrow> world \<Rightarrow> world" where
  "info pf msg w = log pf msg INFO w"

definition logSuccess :: "'n platform \<Rightarrow> jsstring \<Rightarrow> world \<Rightarrow> world" where
  "logSuccess pf msg w = log pf msg SUCCESS w"

definition warn :: "'n platform \<Rightarrow> jsstring \<Rightarrow> world \<Rightarrow> world" where
  "warn pf msg w = log pf msg WARN w"

definition logError :: "'n platform \<Rightarrow> jsstring \<Rightarrow> world \<Rightarrow> world" where
  "logError pf msg w = log pf msg ERROR w"

text \<open>\<open>separator(title?)\<close>: an absent or empty title prints the bare rule.\<close>

definition separator :: "'n platform \<Rightarrow> jsstring option \<Rightarrow> world \<Rightarrow> world" where
  "separator pf title w =
     (case title of
        Some t \<Rightarrow> if t \<noteq> [] then info pf (js ''=== '' @ t @ js '' ==='') w
                  else info pf (js ''==='') w
      | None \<Rightarrow> info pf (js ''==='') w)"

section \<open>Sync executor (rclone.ts)\<close>

text \<open>\<open>s.split('\n')[0]\<close>\<close>

definition firstLine :: "jsstring \<Rightarrow> jsstring" where
  "firstLine s = takeWhile (\<lambda>c. c \<noteq> 0xA) s"

definition findRclone :: "'n platform \<Rightarrow> jsstring option" where
  "findRclone pf =
     (let command = (if win32 pf then js ''where'' else js ''which'');
          (status, stdout) = spawnSync pf command [js ''rclone'']
      in if status = Some 0 \<and> stdout \<noteq> [] then Some (firstLine (trim stdout)) else None)"

definition getRcloneVersion :: "'n platform \<Rightarrow> jsstring option" where
  "getRcloneVersion pf =
     (let (status, stdout) = spawnSync pf (js ''rclone'') [js ''version'']
      in if status = Some 0 \<and> stdout \<noteq> []
         then (case matchVersion pf stdout of
                 Some v \<Rightarrow> Some v
               | None \<Rightarrow> Some (firstLine stdout))
         else None)"

definition checkRclone :: "'n platform \<Rightarrow> ToolCheck" where
  "checkRclone pf =
     (let rclonePath = findRclone pf;
          rcloneInstalled = (rclonePath \<noteq> None);
          rcloneVersion = (if rcloneInstalled then getRcloneVersion pf else None)
      in \<lparr>allGood = rcloneInstalled, rcloneInstalled = rcloneInstalled,
          rclonePath = rclonePath, rcloneVersion = rcloneVersion\<rparr>)"

definition buildRcloneArgs ::
  "'n platform \<Rightarrow> jsstring \<Rightarrow> jsstring \<Rightarrow> bool \<Rightarrow> bool \<Rightarrow> world \<Rightarrow> jsstring list" where
  "buildRcloneArgs pf sourcePath destPath dry verbose w =
     [js ''sync'', sourcePath, destPath, js ''--checksum'', js ''--delete-during'']
     @ (if dry then [js ''--dry-run''] else [])
     @ (if verbose then [js ''--verbose'', js ''--progress''] else [])
     @ (if existsSync w (filtersFile (getPaths pf))
        then [js ''--filter-from'', filtersFile (getPaths pf)] else [])"

text \<open>\<open>Array.prototype.join(sep)\<close> on strings\<close>

fun joinWith :: "jsstring \<Rightarrow> jsstring list \<Rightarrow> jsstring" where
  "joinWith sep [] = []"
| "joinWith sep [x] = x"
| "joinWith sep (x # y # ys) = x @ sep @ joinWith sep (y # ys)"

text \<open>The exit code inside a template string: \<open>null\<close> or the number.\<close>

definition showCode :: "int option \<Rightarrow> jsstring" where
  "showCode code = (case code of None \<Rightarrow> js ''null'' | Some c \<Rightarrow> showInt c)"

text \<open>
  \<open>executeRclone\<close> returns a promise: \<open>Inr ()\<close> when it resolves, \<open>Inl\<close> the error it
  rejects with. Standard error is collected only when the output is piped, that is when
  \<open>verbose\<close> is off. Each spawn is recorded in \<open>spawned\<close>.
\<close>

definition executeRclone ::
  "'n platform \<Rightarrow> jsstring \<Rightarrow> jsstring \<Rightarrow> bool \<Rightarrow> bool \<Rightarrow> world \<Rightarrow> (err + unit) \<times> world" where
  "executeRclone pf sourcePath destPath dry verbose w =
     (let args = buildRcloneArgs pf sourcePath destPath dry verbose w;
          w1 = (if verbose then info pf (js ''  Command: rclone '' @ joinWith (js '' '') args) w else w);
          (res, w2) = rclone pf args verbose w1;
          w3 = w2\<lparr>spawned := spawned w1 @ [args]\<rparr>
      in case res of
           SpawnError m \<Rightarrow> (Inl (RcloneSpawnFailed m), w3)
         | Closed code errText \<Rightarrow>
             (let stderr = (if verbose then [] else errText)
              in if code = Some 0 then (Inr (), w3)
                 else (Inl (RcloneFailed
                        (if stderr \<noteq> [] then stderr
                         else js ''rclone exited with code '' @ showCode code)), w3)))"

section \<open>Orchestrator (backup.ts)\<close>

definition runToolCheck :: "'n platform \<Rightarrow> world \<Rightarrow> world" where
  "runToolCheck pf w =
     (let w1 = separator pf (Some (js ''Tool Check'')) w;
          toolCheck = checkRclone pf
      in if rcloneInstalled toolCheck
         then (let w2 = logSuccess pf (js ''rclone: INSTALLED'') w1;
                   w3 = (case rclonePath toolCheck of
                           Some p \<Rightarrow> if p \<noteq> [] then info pf (js ''  Path: '' @ p) w2 else w2
                         | None \<Rightarrow> w2)
               in case rcloneVersion toolCheck of
                    Some v \<Rightarrow> if v \<noteq> [] then info pf (js ''  Version: '' @ v) w3 else w3
                  | None \<Rightarrow> w3)
         else info pf (js ''  Install from: https://rclone.org/downloads/'')
                (logError pf (js ''rclone: MISSING'') w1))"

definition runInit :: "'n platform \<Rightarrow> world \<Rightarrow> world" where
  "runInit pf w =
     (let machineName = getMachineName pf;
          w1 = info pf (js ''Initializing backup configuration for machine: '' @ machineName) w;
          (configPath, w2) = initializeConfig pf w1
      in if existsSync w2 configPath
         then info pf
                (js ''Edit the file and add your source directories, then set enabled = true'')
                (logSuccess pf (js ''Configuration created: '' @ configPath) w2)
         else w2)"

text \<open>
  How a call of the program ends: \<open>process.exit(n)\<close>, a normal return, or an exception
  that leaves \<open>runBackup\<close> (its promise rejects).
\<close>

datatype ending = Exit nat | Return | Reject err

fun listSource :: "'n platform \<Rightarrow> BackupSource \<Rightarrow> world \<Rightarrow> world" where
  "listSource pf src w =
     (let status = (if enabled src then js ''ENABLED'' else js ''DISABLED'');
          ex = (if existsSync w (path src) then js ''EXISTS'' else js ''NOT FOUND'')
      in info pf (name src @ js '': '' @ status @ js '' - '' @ ex @ js '' - '' @ path src) w)"

definition runListSources :: "'n platform \<Rightarrow> world \<Rightarrow> ending \<times> world" where
  "runListSources pf w =
     (let configPath = getMachineConfigPath pf
      in if \<not> existsSync w configPath
         then (Exit 1,
               info pf (js ''Run with --init flag to create initial configuration'')
                 (logError pf (js ''Configuration file not found: '' @ configPath) w))
         else case loadConfig pf (Some configPath) w of
                Inl e \<Rightarrow> (Reject e, w)
              | Inr config \<Rightarrow>
                  (Return,
                   fold (listSource pf) (sources config)
                     (separator pf (Some (js ''Configured Sources'')) w)))"

definition destinationPath :: "'n platform \<Rightarrow> BackupSource \<Rightarrow> jsstring" where
  "destinationPath pf src = join pf [backupsDir (getPaths pf), getMachineName pf, name src]"

definition backupSource ::
  "'n platform \<Rightarrow> BackupSource \<Rightarrow> bool \<Rightarrow> bool \<Rightarrow> world \<Rightarrow> BackupResult \<times> world" where
  "backupSource pf src dry verbose w =
     (let (startTime, w1) = now pf w;
          w2 = info pf (js ''Processing: '' @ name src) w1
      in if \<not> existsSync w2 (path src)
         then (\<lparr>source = src, success = False, error = Some (js ''Source path not found''),
                duration = None\<rparr>,
               warn pf (js ''  Source not found: '' @ path src) w2)
         else
           (let destPath = destinationPath pf src;
                w3 = (if \<not> existsSync w2 destPath then mkdirSync pf destPath w2 else w2);
                w4 = info pf (js ''  From: '' @ path src) w3;
                w5 = info pf (js ''  To:   '' @ destPath) w4
            in case executeRclone pf (path src) destPath dry verbose w5 of
                 (Inr u, w6) \<Rightarrow>
                   (let (endT, w7) = now pf w6;
                        d = endT - startTime
                    in (\<lparr>source = src, success = True, error = None, duration = Some d\<rparr>,
                        logSuccess pf (js ''  Status: Success ('' @ showInt d @ js ''ms)'') w7))
               | (Inl e, w6) \<Rightarrow>
                   (let errorMessage = message e
                    in (\<lparr>source = src, success = False, error = Some errorMessage,
                         duration = None\<rparr>,
                        logError pf (js ''  Status: Failed - '' @ errorMessage) w6))))"

text \<open>The loop \<open>for (const source of enabledSources) { ...; results.push(result) }\<close>.\<close>

fun backupEach ::
  "'n platform \<Rightarrow> BackupSource list \<Rightarrow> bool \<Rightarrow> bool \<Rightarrow> BackupResult list \<Rightarrow> world
     \<Rightarrow> BackupResult list \<times> world" where
  "backupEach pf [] dry verbose res w = (res, w)"
| "backupEach pf (s # ss) dry verbose res w =
     (let (r, w1) = backupSource pf s dry verbose w
      in backupEach pf ss dry verbose (res @ [r]) w1)"

text \<open>
  The part of \<open>runBackup\<close> after the configuration is loaded. The summary is built by
  the program just before it decides the exit code, so it is returned here together with
  the ending, also when the run ends in \<open>process.exit(1)\<close>.
\<close>

definition runSources ::
  "'n platform \<Rightarrow> CliOptions \<Rightarrow> int \<Rightarrow> MachineConfig \<Rightarrow> world
     \<Rightarrow> ending \<times> BackupSummary option \<times> world" where
  "runSources pf options start config w =
     (let enabledSources = getEnabledSources config
      in if length enabledSources = 0
         then (Return, None, warn pf (js ''No enabled sources found in configuration'') w)
         else
           (let w1 = info pf (js ''Processing '' @ showNat (length enabledSources)
                                @ js '' source(s)'') w;
                (res, w2) = backupEach pf enabledSources (optDryRun options)
                              (optVerbose options) [] w1;
                (endT, w3) = now pf w2;
                nSuccess = length (filter success res);
                nFail = length (filter (\<lambda>r. \<not> success r) res);
                w4 = separator pf (Some (js ''Summary'')) w3;
                w5 = logSuccess pf (js ''Success: '' @ showNat nSuccess) w4;
                w6 = (if nFail > 0 then warn pf (js ''Failed: '' @ showNat nFail) w5 else w5);
                w7 = (if optDryRun options then warn pf (js ''DRY RUN - no files copied'') w6
                      else w6);
                summary = \<lparr>machine = getMachineName pf, startTime = start, endTime = endT,
                           totalSources = length enabledSources,
                           successCount = nSuccess, failCount = nFail,
                           skippedCount = int (length (sources config))
                                          - int (length enabledSources),
                           results = res, dryRun = optDryRun options\<rparr>
            in if nFail > 0 \<and> \<not> optDryRun options then (Exit 1, Some summary, w7)
               else (Return, Some summary, w7)))"

definition runBackup ::
  "'n platform \<Rightarrow> CliOptions \<Rightarrow> world \<Rightarrow> ending \<times> BackupSummary option \<times> world" where
  "runBackup pf options w =
     (let (start, w0) = now pf w;
          machineName = getMachineName pf;
          paths = getPaths pf
      in if optCheckTools options then (Return, None, runToolCheck pf w0)
         else if optInit options then (Return, None, runInit pf w0)
         else if optListOnly options
         then (let (e, w1) = runListSources pf w0 in (e, None, w1))
         else
           (let w1 = separator pf (Some (js ''Starting Backup'')) w0;
                w2 = info pf (js ''Machine: '' @ machineName) w1;
                w3 = (if optDryRun options then warn pf (js ''Mode: DRY RUN'') w2 else w2)
            in if \<not> validateBackupRoot pf w3
               then (Exit 1, None,
                     logError pf (js ''Backup root directory not found: '' @ backupRoot paths) w3)
               else if \<not> allGood (checkRclone pf)
               then (Exit 1, None,
                     info pf (js ''  Install from: https://rclone.org/downloads/'')
                       (logError pf (js ''rclone is not installed'') w3))
               else
                 (let configPath = getMachineConfigPath pf
                  in if \<not> existsSync w3 configPath
                     then (Exit 1, None,
                           info pf (js ''Run with --init flag to create initial configuration'')
                             (logError pf (js ''Machine-specific config expected at: ''
                                             @ configPath)
                               (logError pf (js ''No configuration found for this machine'')
                                  w3)))
                     else case loadConfig pf (Some configPath) w3 of
                            Inl e \<Rightarrow> (Exit 1, None, logError pf (message e) w3)
                          | Inr config \<Rightarrow>
                              runSources pf options start config
                                (info pf (js ''Loaded configuration from: '' @ configPath)
                                   w3))))"


section \<open>Notions used to state the properties\<close>

subsection \<open>Shapes of parsed values\<close>

text \<open>
  The tests of the validator, named: \<open>isObject\<close> is its test on the root and on each
  element (\<open>typeof\<close> is \<open>'object'\<close> and the value is not \<open>null\<close>; an array passes
  it), the others are its tests on a property that may be absent.
\<close>

definition isObject :: "'n jsval \<Rightarrow> bool" where
  "isObject v = (typeof v = TObject \<and> v \<noteq> JNull)"

definition isString :: "'n jsval option \<Rightarrow> bool" where
  "isString v = (case v of Some (JStr s) \<Rightarrow> True | _ \<Rightarrow> False)"

definition isArray :: "'n jsval option \<Rightarrow> bool" where
  "isArray v = (case v of Some (JArr xs) \<Rightarrow> True | _ \<Rightarrow> False)"

definition isBoolean :: "'n jsval option \<Rightarrow> bool" where
  "isBoolean v = (case v of Some (JBool b) \<Rightarrow> True | _ \<Rightarrow> False)"

definition nonBlankString :: "'n jsval option \<Rightarrow> bool" where
  "nonBlankString v = (case v of Some (JStr s) \<Rightarrow> trim s \<noteq> [] | _ \<Rightarrow> False)"

definition wellFormedSource :: "'n jsval \<Rightarrow> bool" where
  "wellFormedSource x =
     (isObject x \<and> nonBlankString (getProp x (js ''name''))
      \<and> nonBlankString (getProp x (js ''path'')) \<and> isBoolean (getProp x (js ''enabled'')))"

text \<open>A source of the output is populated from an element of the input when its name and
  path are the trimmed, non-empty strings of the element and its flag is the element's
  boolean.\<close>

definition trimmedProp :: "'n jsval \<Rightarrow> jsstring \<Rightarrow> jsstring option" where
  "trimmedProp x k = (case getProp x k of Some (JStr t) \<Rightarrow> Some (trim t) | _ \<Rightarrow> None)"

definition populated :: "'n jsval \<Rightarrow> BackupSource \<Rightarrow> bool" where
  "populated x s =
     (trimmedProp x (js ''name'') = Some (name s) \<and> name s \<noteq> []
      \<and> trimmedProp x (js ''path'') = Some (path s) \<and> path s \<noteq> []
      \<and> getProp x (js ''enabled'') = Some (JBool (enabled s)))"

subsection \<open>Adding whitespace around the names and paths of a configuration\<close>

text \<open>
  A padding gives the whitespace to put before and after the name and before and after
  the path of one source; \<open>padConfig\<close> applies a list of paddings to the elements of
  \<open>sources\<close>, one padding for each element, in order.
\<close>

definition blank :: "jsstring \<Rightarrow> bool" where
  "blank s = list_all isWhiteSpace s"

type_synonym padding = "jsstring \<times> jsstring \<times> jsstring \<times> jsstring"

fun wsPadding :: "padding \<Rightarrow> bool" where
  "wsPadding (a, b, c, e) = (blank a \<and> blank b \<and> blank c \<and> blank e)"

fun padStr :: "jsstring \<Rightarrow> jsstring \<Rightarrow> 'n jsval \<Rightarrow> 'n jsval" where
  "padStr a b (JStr s) = JStr (a @ s @ b)"
| "padStr a b v = v"

definition padProp ::
  "jsstring \<Rightarrow> jsstring \<Rightarrow> jsstring \<Rightarrow> (jsstring \<times> 'n jsval) list \<Rightarrow> (jsstring \<times> 'n jsval) list" where
  "padProp k a b fs = map (\<lambda>(k', v). (k', if k' = k then padStr a b v else v)) fs"

fun padSource :: "padding \<Rightarrow> 'n jsval \<Rightarrow> 'n jsval" where
  "padSource (a, b, c, e) (JObj fs) = JObj (padProp (js ''name'') a b (padProp (js ''path'') c e fs))"
| "padSource _ v = v"

fun padSources :: "padding list \<Rightarrow> 'n jsval list \<Rightarrow> 'n jsval list" where
  "padSources (p # ps) (x # xs) = padSource p x # padSources ps xs"
| "padSources _ xs = xs"

fun padArr :: "padding list \<Rightarrow> 'n jsval \<Rightarrow> 'n jsval" where
  "padArr ps (JArr xs) = JArr (padSources ps xs)"
| "padArr ps v = v"

fun padConfig :: "padding list \<Rightarrow> 'n jsval \<Rightarrow> 'n jsval" where
  "padConfig ps (JObj fs) =
     JObj (map (\<lambda>(k, v). (k, if k = js ''sources'' then padArr ps v else v)) fs)"
| "padConfig ps v = v"

subsection \<open>Stages of a run\<close>

text \<open>
  The argument list in the order of the contract in the specification,
  \<open>sync <source> <dest> --checksum --delete-during [--filter-from <file>] [--dry-run]
  [--verbose --progress]\<close>, to compare with \<open>buildRcloneArgs\<close>.
\<close>

definition contractArgs ::
  "'n platform \<Rightarrow> jsstring \<Rightarrow> jsstring \<Rightarrow> bool \<Rightarrow> bool \<Rightarrow> world \<Rightarrow> jsstring list" where
  "contractArgs pf sourcePath destPath dry verbose w =
     [js ''sync'', sourcePath, destPath, js ''--checksum'', js ''--delete-during'']
     @ (if existsSync w (filtersFile (getPaths pf))
        then [js ''--filter-from'', filtersFile (getPaths pf)] else [])
     @ (if dry then [js ''--dry-run''] else [])
     @ (if verbose then [js ''--verbose'', js ''--progress''] else [])"

text \<open>
  Worlds inside \<open>backupSource\<close>: \<open>atCheck\<close> is the world in which the path of the
  source is tested, \<open>beforeSync\<close> the one in which the engine is started;
  \<open>sourceNotFound\<close> is the result recorded for a missing path.
\<close>

definition atCheck :: "'n platform \<Rightarrow> BackupSource \<Rightarrow> world \<Rightarrow> world" where
  "atCheck pf src w = info pf (js ''Processing: '' @ name src) (snd (now pf w))"

definition sourceNotFound :: "BackupSource \<Rightarrow> BackupResult" where
  "sourceNotFound src =
     \<lparr>source = src, success = False, error = Some (js ''Source path not found''),
      duration = None\<rparr>"

definition beforeSync :: "'n platform \<Rightarrow> BackupSource \<Rightarrow> world \<Rightarrow> world" where
  "beforeSync pf src w =
     (let w2 = atCheck pf src w;
          destPath = destinationPath pf src;
          w3 = (if \<not> existsSync w2 destPath then mkdirSync pf destPath w2 else w2)
      in info pf (js ''  To:   '' @ destPath) (info pf (js ''  From: '' @ path src) w3))"

text \<open>
  Stages of \<open>runBackup\<close>: \<open>announced\<close> is the world after the opening log lines, in
  which the prerequisites are checked; \<open>special\<close> says that one of the special modes
  was asked for; \<open>fatal\<close> that one of the four checks of \<open>runBackup\<close> that end in
  \<open>process.exit(1)\<close> fails; \<open>loadedConfig\<close> is the configuration with which the sources
  are processed; \<open>failedResults\<close> counts the failed results of a run (none when no
  summary was built).
\<close>

definition announced :: "'n platform \<Rightarrow> CliOptions \<Rightarrow> world \<Rightarrow> world" where
  "announced pf options w =
     (let w1 = separator pf (Some (js ''Starting Backup'')) (snd (now pf w));
          w2 = info pf (js ''Machine: '' @ getMachineName pf) w1
      in if optDryRun options then warn pf (js ''Mode: DRY RUN'') w2 else w2)"

definition special :: "CliOptions \<Rightarrow> bool" where
  "special options = (optCheckTools options \<or> optInit options \<or> optListOnly options)"

definition fatal :: "'n platform \<Rightarrow> CliOptions \<Rightarrow> world \<Rightarrow> bool" where
  "fatal pf options w =
     (let w3 = announced pf options w; configPath = getMachineConfigPath pf
      in \<not> validateBackupRoot pf w3 \<or> \<not> allGood (checkRclone pf)
         \<or> \<not> existsSync w3 configPath \<or> isl (loadConfig pf (Some configPath) w3))"

definition loadedConfig :: "'n platform \<Rightarrow> CliOptions \<Rightarrow> world \<Rightarrow> MachineConfig option" where
  "loadedConfig pf options w =
     (if special options \<or> fatal pf options w then None
      else case loadConfig pf (Some (getMachineConfigPath pf)) (announced pf options w) of
             Inr config \<Rightarrow> Some config
           | Inl e \<Rightarrow> None)"


subsection \<open>An example machine\<close>

text \<open>
  The scenario of the specification: machine \<open>H1\<close> with sources \<open>a\<close> (enabled,
  \<open>/exists\<close>), \<open>b\<close> (enabled, \<open>/missing\<close>) and \<open>c\<close> (disabled), on a platform whose
  engine always succeeds; \<open>/exists\<close> is there and \<open>/missing\<close> is not.
\<close>

definition exConfigJson :: "unit jsval" where
  "exConfigJson =
     JObj [(js ''machine_name'', JStr (js ''H1'')),
           (js ''sources'', JArr [
              JObj [(js ''name'', JStr (js ''a'')), (js ''path'', JStr (js ''/exists'')),
                    (js ''enabled'', JBool True)],
              JObj [(js ''name'', JStr (js ''b'')), (js ''path'', JStr (js ''/missing'')),
                    (js ''enabled'', JBool True)],
              JObj [(js ''name'', JStr (js ''c'')), (js ''path'', JStr (js ''/x'')),
                    (js ''enabled'', JBool False)]])]"

definition exSourceA :: BackupSource where
  "exSourceA = \<lparr>name = js ''a'', path = js ''/exists'', enabled = True\<rparr>"

definition exSourceB :: BackupSource where
  "exSourceB = \<lparr>name = js ''b'', path = js ''/missing'', enabled = True\<rparr>"

definition exSourceC :: BackupSource where
  "exSourceC = \<lparr>name = js ''c'', path = js ''/x'', enabled = False\<rparr>"

definition exConfig :: MachineConfig where
  "exConfig = \<lparr>machine_name = js ''H1'', sources = [exSourceA, exSourceB, exSourceC]\<rparr>"

definition exPlatform :: "unit platform" where
  "exPlatform =
     \<lparr>cwd = js ''/r'', hostname = js ''H1'', win32 = False,
      join = joinWith (js ''/''), ancestors = (\<lambda>p. []),
      clock = (\<lambda>k. int k), localtime = (\<lambda>t. (2024, 0, 1, 0, 0, 0)),
      JSON_parse = (\<lambda>s. if s = js ''{}'' then Inr exConfigJson
                          else Inl (js ''Unexpected token'')),
      JSON_stringify = (\<lambda>c. js ''{}''),
      spawnSync = (\<lambda>c a. (Some 0, js ''/usr/bin/rclone'')),
      matchVersion = (\<lambda>s. None),
      rclone = (\<lambda>args inherit w. (Closed (Some 0) [], w))\<rparr>"

definition exWorld :: world where
  "exWorld =
     \<lparr>files = [js ''/r'' \<mapsto> Dir, js ''/exists'' \<mapsto> Dir,
               js ''/r/config/machine-configs/H1.json'' \<mapsto> File (js ''{}'')],
      reads = 0, console = [], spawned = []\<rparr>"

definition exOptions :: CliOptions where
  "exOptions = \<lparr>optDryRun = False, optVerbose = False, optListOnly = False,
                 optInit = False, optCheckTools = False\<rparr>"



definition exWorldFilters :: world where
  "exWorldFilters =
     exWorld\<lparr>files := (files exWorld)(js ''/r/config/filters.txt'' \<mapsto> File [])\<rparr>"


definition exBlankPathJson :: "unit jsval" where
  "exBlankPathJson =
     JObj [(js ''machine_name'', JStr (js ''H1'')),
           (js ''sources'', JArr [
              JObj [(js ''name'', JStr (js ''a'')), (js ''path'', JStr (js ''/exists'')),
                    (js ''enabled'', JBool True)],
              JObj [(js ''name'', JStr (js ''b'')), (js ''path'', JStr (js ''  '')),
                    (js ''enabled'', JBool True)]])]"

definition exPadding :: "padding list" where
  "exPadding = [([0x20], [0x9], [0xA, 0x20], []), ([], [0x20], [], [0x3000])]"

section \<open>Lemmas\<close>

subsection \<open>Validator\<close>

lemma validateSource_Inr:
  "validateSource x i = Inr s \<Longrightarrow> wellFormedSource x \<and> populated x s"
  by (auto simp: validateSource_def wellFormedSource_def populated_def trimmedProp_def
        isObject_def nonBlankString_def isBoolean_def
        split: if_splits option.splits jsval.splits)

lemma wellFormedSource_Inr:
  "wellFormedSource x \<Longrightarrow> \<exists>s. validateSource x i = Inr s"
  by (auto simp: validateSource_def wellFormedSource_def isObject_def
        nonBlankString_def isBoolean_def split: if_splits option.splits jsval.splits)

lemma validateSource_not_object:
  "\<not> isObject x \<Longrightarrow> validateSource x i = Inl (SourceNotObject i)"
  by (auto simp: validateSource_def isObject_def)

lemma validateSource_bad_name:
  "isObject x \<Longrightarrow> \<not> nonBlankString (getProp x (js ''name''))
     \<Longrightarrow> validateSource x i = Inl (SourceMissingName i)"
  by (auto simp: validateSource_def isObject_def nonBlankString_def
        split: option.splits jsval.splits)

lemma validateSource_bad_path:
  "isObject x \<Longrightarrow> nonBlankString (getProp x (js ''name''))
     \<Longrightarrow> \<not> nonBlankString (getProp x (js ''path''))
     \<Longrightarrow> validateSource x i = Inl (SourceMissingPath i)"
  by (auto simp: validateSource_def isObject_def nonBlankString_def
        split: option.splits jsval.splits)

lemma validateSource_bad_enabled:
  "isObject x \<Longrightarrow> nonBlankString (getProp x (js ''name''))
     \<Longrightarrow> nonBlankString (getProp x (js ''path''))
     \<Longrightarrow> \<not> isBoolean (getProp x (js ''enabled''))
     \<Longrightarrow> validateSource x i = Inl (SourceMissingEnabled i)"
  by (auto simp: validateSource_def isObject_def nonBlankString_def isBoolean_def
        split: option.splits jsval.splits)

lemma validateSources_Inr:
  "validateSources xs i = Inr ss \<Longrightarrow> list_all2 populated xs ss"
proof (induction xs arbitrary: i ss)
  case Nil
  then show ?case by simp
next
  case (Cons x xs)
  then show ?case
    by (auto split: sum.splits dest: validateSource_Inr)
qed

lemma validateSources_first_error:
  "i < length xs \<Longrightarrow> \<forall>j<i. wellFormedSource (xs ! j)
     \<Longrightarrow> validateSource (xs ! i) (k + i) = Inl e
     \<Longrightarrow> validateSources xs k = Inl e"
proof (induction xs arbitrary: i k)
  case Nil
  then show ?case by simp
next
  case (Cons x xs)
  show ?case
  proof (cases i)
    case 0
    with Cons.prems show ?thesis by simp
  next
    case (Suc i')
    from Cons.prems Suc have wf: "wellFormedSource x" by auto
    then obtain s where s: "validateSource x k = Inr s"
      using wellFormedSource_Inr by blast
    have "validateSources xs (Suc k) = Inl e"
    proof (rule Cons.IH[of i'])
      show "i' < length xs" using Cons.prems Suc by simp
      show "\<forall>j<i'. wellFormedSource (xs ! j)" using Cons.prems(2) Suc by auto
      show "validateSource (xs ! i') (Suc k + i') = Inl e" using Cons.prems(3) Suc by simp
    qed
    with s show ?thesis by simp
  qed
qed

lemma validateConfig_source_error:
  assumes "isObject d" "getProp d (js ''machine_name'') = Some (JStr m)"
    "getProp d (js ''sources'') = Some (JArr xs)" "i < length xs"
    "\<forall>j<i. wellFormedSource (xs ! j)" "validateSource (xs ! i) i = Inl e"
  shows "validateConfig d = Inl e"
proof -
  have "validateSources xs 0 = Inl e"
    using validateSources_first_error[of i xs 0 e] assms by simp
  with assms show ?thesis by (simp add: validateConfig_def isObject_def)
qed

lemma validateConfig_Inr:
  assumes "validateConfig d = Inr cfg"
  shows "isObject d \<and> getProp d (js ''machine_name'') = Some (JStr (machine_name cfg))
     \<and> (\<exists>xs. getProp d (js ''sources'') = Some (JArr xs) \<and> list_all2 populated xs (sources cfg))"
  using assms
  by (auto simp: validateConfig_def isObject_def
        split: if_splits option.splits jsval.splits sum.splits dest: validateSources_Inr)

subsection \<open>Trimming\<close>

lemma dropWhile_all: "list_all P xs \<Longrightarrow> dropWhile P (xs @ ys) = dropWhile P ys"
  by (induction xs) auto

lemma trim_pad:
  assumes "blank a" "blank b"
  shows "trim (a @ s @ b) = trim s"
proof -
  let ?P = isWhiteSpace
  have 1: "dropWhile ?P (a @ s @ b) = dropWhile ?P (s @ b)"
    using assms(1) by (simp add: blank_def dropWhile_all)
  have b: "list_all ?P (rev b)" using assms(2) by (simp add: blank_def list_all_iff)
  show ?thesis
  proof (cases "list_all ?P s")
    case True
    then have "dropWhile ?P (s @ b) = dropWhile ?P b" by (simp add: dropWhile_all)
    also have "\<dots> = []" using assms(2) by (simp add: blank_def list_all_iff)
    finally have e1: "dropWhile ?P (a @ s @ b) = []" using 1 by simp
    have e2: "dropWhile ?P s = []" using True by (simp add: list_all_iff)
    show ?thesis unfolding trim_def e1 e2 by simp
  next
    case False
    then obtain x where "x \<in> set s" "\<not> ?P x" by (auto simp: list_all_iff)
    then have "dropWhile ?P (s @ b) = dropWhile ?P s @ b" by (rule dropWhile_append1)
    then have "rev (dropWhile ?P (a @ s @ b)) = rev b @ rev (dropWhile ?P s)"
      using 1 by simp
    then show ?thesis using b by (simp add: trim_def dropWhile_all)
  qed
qed

lemma dropWhile_id: "xs = [] \<or> \<not> P (hd xs) \<Longrightarrow> dropWhile P xs = xs"
  by (cases xs) auto

lemma trim_idem: "trim (trim s) = trim s"
proof -
  let ?P = isWhiteSpace
  define u where "u = dropWhile ?P s"
  define v where "v = dropWhile ?P (rev u)"
  have t: "trim s = rev v" by (simp add: trim_def u_def v_def)
  have "dropWhile ?P (rev v) = rev v"
  proof (rule dropWhile_id, cases "v = []")
    case True
    then show "rev v = [] \<or> \<not> ?P (hd (rev v))" by simp
  next
    case False
    have "rev u = takeWhile ?P (rev u) @ v" by (simp add: v_def)
    then have "last (rev u) = last v" using False by (metis last_appendR)
    moreover have "u \<noteq> []" using False by (auto simp: v_def)
    ultimately have "last v = hd u" by (simp add: last_rev)
    moreover have "\<not> ?P (hd u)" using \<open>u \<noteq> []\<close> unfolding u_def by (rule hd_dropWhile)
    ultimately show "rev v = [] \<or> \<not> ?P (hd (rev v))" using False by (simp add: hd_rev)
  qed
  moreover have "dropWhile ?P v = v" by (simp add: v_def)
  ultimately have "trim (rev v) = rev v" unfolding trim_def by simp
  then show ?thesis by (simp only: t)
qed

lemma map_of_padProp:
  "map_of (padProp k a b fs) k' =
     (if k' = k then map_option (padStr a b) (map_of fs k') else map_of fs k')"
  by (induction fs) (auto simp: padProp_def)

lemma js_keys_distinct:
  "js ''name'' \<noteq> js ''path''" "js ''name'' \<noteq> js ''enabled''" "js ''path'' \<noteq> js ''enabled''"
  "js ''path'' \<noteq> js ''name''" "js ''enabled'' \<noteq> js ''name''" "js ''enabled'' \<noteq> js ''path''"
  "js ''machine_name'' \<noteq> js ''sources''" "js ''sources'' \<noteq> js ''machine_name''"
  by (simp_all add: js_def)

lemma validateSource_pad:
  assumes "wsPadding p"
  shows "validateSource (padSource p x) i = validateSource x i"
proof -
  obtain a b c e where p: "p = (a, b, c, e)" by (cases p) auto
  with assms have ws: "blank a" "blank b" "blank c" "blank e" by auto
  show ?thesis
  proof (cases x)
    case (JObj fs)
    have n: "getProp (padSource p x) (js ''name'') = map_option (padStr a b) (getProp x (js ''name''))"
      by (simp add: JObj p map_of_padProp js_keys_distinct)
    have q: "getProp (padSource p x) (js ''path'') = map_option (padStr c e) (getProp x (js ''path''))"
      by (simp add: JObj p map_of_padProp js_keys_distinct)
    have en: "getProp (padSource p x) (js ''enabled'') = getProp x (js ''enabled'')"
      by (simp add: JObj p map_of_padProp js_keys_distinct)
    have ty: "typeof (padSource p x) = TObject" "typeof x = TObject"
      "(padSource p x = JNull) = False" "(x = JNull) = False"
      by (simp_all add: JObj p)
    have tn: "\<And>s. trim (a @ s @ b) = trim s" using ws by (simp add: trim_pad)
    have tp: "\<And>s. trim (c @ s @ e) = trim s" using ws by (simp add: trim_pad)
    show ?thesis
      unfolding validateSource_def n q en ty
      by (simp add: tn tp split: option.split jsval.split)
  qed (simp_all add: p)
qed

lemma validateSources_pad:
  "list_all wsPadding ps \<Longrightarrow> validateSources (padSources ps xs) i = validateSources xs i"
proof (induction ps xs arbitrary: i rule: padSources.induct)
  case (1 p ps x xs)
  then have "validateSource (padSource p x) i = validateSource x i"
    and "validateSources (padSources ps xs) (Suc i) = validateSources xs (Suc i)"
    by (simp_all add: validateSource_pad)
  then show ?case by (simp split: sum.split)
qed simp_all

lemma map_of_padConfig:
  "map_of (map (\<lambda>(k, v). (k, if k = js ''sources'' then padArr ps v else v)) fs) k' =
     (if k' = js ''sources'' then map_option (padArr ps) (map_of fs k') else map_of fs k')"
  by (induction fs) auto

lemma validateConfig_pad:
  assumes "list_all wsPadding ps"
  shows "validateConfig (padConfig ps d) = validateConfig d"
proof (cases d)
  case (JObj fs)
  have m: "getProp (padConfig ps d) (js ''machine_name'') = getProp d (js ''machine_name'')"
    by (simp add: JObj map_of_padConfig js_keys_distinct)
  have s: "getProp (padConfig ps d) (js ''sources'') = map_option (padArr ps) (getProp d (js ''sources''))"
    by (simp add: JObj map_of_padConfig)
  have ty: "typeof (padConfig ps d) = TObject" "typeof d = TObject"
    "(padConfig ps d = JNull) = False" "(d = JNull) = False"
    by (simp_all add: JObj)
  have inner: "(case map_option (padArr ps) (getProp d (js ''sources'')) of
             Some (JArr xs) \<Rightarrow>
               (case validateSources xs 0 of
                  Inl e \<Rightarrow> Inl e
                | Inr ss \<Rightarrow> Inr \<lparr>machine_name = m', sources = ss\<rparr>)
           | _ \<Rightarrow> Inl ConfigMissingSources) =
         (case getProp d (js ''sources'') of
             Some (JArr xs) \<Rightarrow>
               (case validateSources xs 0 of
                  Inl e \<Rightarrow> Inl e
                | Inr ss \<Rightarrow> Inr \<lparr>machine_name = m', sources = ss\<rparr>)
           | _ \<Rightarrow> Inl ConfigMissingSources)" for m'
  proof (cases "getProp d (js ''sources'')")
    case None
    then show ?thesis by simp
  next
    case (Some v)
    then show ?thesis using assms by (cases v) (simp_all add: validateSources_pad)
  qed
  show ?thesis
    unfolding validateConfig_def m s ty inner ..
next
  case JNull then show ?thesis by simp
next
  case (JBool b) then show ?thesis by simp
next
  case (JNum n) then show ?thesis by simp
next
  case (JStr t) then show ?thesis by simp
next
  case (JArr xs) then show ?thesis by simp
qed

lemma trimmedProp_trimmed: "trimmedProp x k = Some v \<Longrightarrow> trim v = v"
  by (auto simp: trimmedProp_def trim_idem split: option.splits jsval.splits)

lemma populated_trimmed:
  "populated x s \<Longrightarrow> trim (name s) = name s \<and> trim (path s) = path s"
  unfolding populated_def using trimmedProp_trimmed by blast

subsection \<open>Logging and the file system\<close>

lemma spawned_now [simp]: "spawned (snd (now pf w)) = spawned w"
  by (simp add: now_def)

lemma spawned_mkdirSync [simp]: "spawned (mkdirSync pf p w) = spawned w"
  by (simp add: mkdirSync_def)

lemma spawned_appendFileSync [simp]: "spawned (appendFileSync p c w) = spawned w"
  by (simp add: appendFileSync_def split: option.splits node.splits)

lemma spawned_log [simp]: "spawned (log pf m l w) = spawned w"
  by (simp add: log_def formatTimestamp_def writeToFile_def ensureLogDir_def
        getLogFilePath_def getDateString_def now_def Let_def split_def)

lemma spawned_info [simp]: "spawned (info pf m w) = spawned w"
  and spawned_warn [simp]: "spawned (warn pf m w) = spawned w"
  and spawned_logError [simp]: "spawned (logError pf m w) = spawned w"
  and spawned_logSuccess [simp]: "spawned (logSuccess pf m w) = spawned w"
  by (simp_all add: info_def warn_def logError_def logSuccess_def)

lemma files_mkdirs:
  "foldr (\<lambda>q f. if f q = None then f(q \<mapsto> Dir) else f) ps f0 p =
     (if f0 p = None \<and> p \<in> set ps then Some Dir else f0 p)"
proof (induction ps)
  case Nil
  show ?case by simp
next
  case (Cons q ps)
  show ?case
  proof (cases "f0 p")
    case None
    with Cons show ?thesis by (auto split: if_splits)
  next
    case (Some n)
    with Cons show ?thesis by (auto split: if_splits)
  qed
qed

lemma files_mkdirSync:
  "files (mkdirSync pf d w) p =
     (if files w p = None \<and> p \<in> set (d # ancestors pf d) then Some Dir else files w p)"
proof -
  have sel: "files (w\<lparr>files := F\<rparr>) = F" for F by simp
  show ?thesis unfolding mkdirSync_def sel by (rule files_mkdirs)
qed

subsection \<open>Sync arguments\<close>


subsection \<open>Destination path\<close>


lemma backupSource_missing:
  assumes "\<not> existsSync (atCheck pf src w) (path src)"
  shows "backupSource pf src dry verbose w =
           (sourceNotFound src, warn pf (js ''  Source not found: '' @ path src) (atCheck pf src w))"
  using assms
  by (simp add: backupSource_def atCheck_def sourceNotFound_def Let_def split_def)

lemma spawned_beforeSync [simp]: "spawned (beforeSync pf src w) = spawned w"
  by (simp add: beforeSync_def atCheck_def Let_def)

lemma backupSource_present:
  assumes "existsSync (atCheck pf src w) (path src)"
  shows "backupSource pf src dry verbose w =
        (case executeRclone pf (path src) (destinationPath pf src) dry verbose
                (beforeSync pf src w) of
           (Inr u, w6) \<Rightarrow>
             (let (endT, w7) = now pf w6; d = endT - clock pf (reads w)
              in (\<lparr>source = src, success = True, error = None, duration = Some d\<rparr>,
                  logSuccess pf (js ''  Status: Success ('' @ showInt d @ js ''ms)'') w7))
         | (Inl e, w6) \<Rightarrow>
             (\<lparr>source = src, success = False, error = Some (message e), duration = None\<rparr>,
              logError pf (js ''  Status: Failed - '' @ message e) w6))"
  using assms
  by (simp add: backupSource_def atCheck_def beforeSync_def Let_def now_def split_def
        split: sum.splits)

subsection \<open>One source\<close>

lemma backupSource_result:
  "source (fst (backupSource pf src dry verbose w)) = src
   \<and> (duration (fst (backupSource pf src dry verbose w)) \<noteq> None)
       = success (fst (backupSource pf src dry verbose w))
   \<and> (error (fst (backupSource pf src dry verbose w)) = None)
       = success (fst (backupSource pf src dry verbose w))
   \<and> (success (fst (backupSource pf src dry verbose w)) \<longrightarrow>
        (\<exists>k. duration (fst (backupSource pf src dry verbose w))
               = Some (clock pf k - clock pf (reads w))))"
proof (cases "existsSync (atCheck pf src w) (path src)")
  case False
  then show ?thesis by (simp add: backupSource_missing sourceNotFound_def)
next
  case True
  note eq = backupSource_present[OF True, of dry verbose]
  obtain r w6 where ex: "executeRclone pf (path src) (destinationPath pf src) dry verbose
      (beforeSync pf src w) = (r, w6)"
    by (cases "executeRclone pf (path src) (destinationPath pf src) dry verbose
      (beforeSync pf src w)") auto
  show ?thesis
  proof (cases r)
    case (Inl e)
    then show ?thesis by (simp add: eq ex)
  next
    case (Inr u)
    then show ?thesis by (auto simp: eq ex now_def Let_def)
  qed
qed


subsection \<open>The loop over the enabled sources\<close>

lemma backupEach_sources:
  "map source (fst (backupEach pf ss dry verbose res w)) = map source res @ ss"
proof (induction ss arbitrary: res w)
  case Nil
  show ?case by simp
next
  case (Cons s ss)
  obtain r w1 where b: "backupSource pf s dry verbose w = (r, w1)"
    by (cases "backupSource pf s dry verbose w") auto
  have "source r = s" using backupSource_result[of pf s dry verbose w] b by simp
  then show ?case using Cons.IH[of "res @ [r]" w1] b by simp
qed

lemma backupEach_step:
  "backupEach pf (s # ss) dry verbose res w =
     backupEach pf ss dry verbose (res @ [fst (backupSource pf s dry verbose w)])
       (snd (backupSource pf s dry verbose w))"
  by (simp add: split_def Let_def)

lemma count_success: "length (filter success rs) + length (filter (\<lambda>r. \<not> success r) rs) = length rs"
  by (induction rs) auto

subsection \<open>The whole run\<close>

lemma runSources_none:
  assumes "getEnabledSources config = []"
  shows "fst (runSources pf options start config w) = Return"
    and "fst (snd (runSources pf options start config w)) = None"
  using assms by (simp_all add: runSources_def)

lemma runSources_some:
  assumes "getEnabledSources config \<noteq> []"
  shows "\<exists>summ. fst (snd (runSources pf options start config w)) = Some summ
     \<and> map source (results summ) = getEnabledSources config
     \<and> totalSources summ = length (getEnabledSources config)
     \<and> successCount summ = length (filter success (results summ))
     \<and> failCount summ = length (filter (\<lambda>r. \<not> success r) (results summ))
     \<and> skippedCount summ = int (length (sources config)) - int (length (getEnabledSources config))
     \<and> dryRun summ = optDryRun options
     \<and> results summ = fst (backupEach pf (getEnabledSources config) (optDryRun options)
           (optVerbose options) []
           (info pf (js ''Processing '' @ showNat (length (getEnabledSources config))
                      @ js '' source(s)'') w))
     \<and> fst (runSources pf options start config w)
         = (if failCount summ > 0 \<and> \<not> optDryRun options then Exit 1 else Return)"
proof -
  let ?w1 = "info pf (js ''Processing '' @ showNat (length (getEnabledSources config))
                                @ js '' source(s)'') w"
  let ?be = "backupEach pf (getEnabledSources config) (optDryRun options)
                              (optVerbose options) [] ?w1"
  let ?res = "fst ?be"
  let ?summ = "\<lparr>machine = getMachineName pf, startTime = start,
      endTime = fst (now pf (snd ?be)),
      totalSources = length (getEnabledSources config),
      successCount = length (filter success ?res),
      failCount = length (filter (\<lambda>r. \<not> success r) ?res),
      skippedCount = int (length (sources config)) - int (length (getEnabledSources config)),
      results = ?res, dryRun = optDryRun options\<rparr>"
  have src: "map source ?res = getEnabledSources config"
    using backupEach_sources[of pf "getEnabledSources config" "optDryRun options"
        "optVerbose options" "[]" ?w1] by simp
  have s: "fst (snd (runSources pf options start config w)) = Some ?summ"
    using assms by (simp add: runSources_def Let_def split_def)
  have e: "fst (runSources pf options start config w)
         = (if failCount ?summ > 0 \<and> \<not> optDryRun options then Exit 1 else Return)"
    using assms
    by (cases "optDryRun options") (simp_all add: runSources_def Let_def split_def)
  show ?thesis
    apply (rule exI[of _ ?summ])
    apply (intro conjI)
           apply (rule s)
          apply (simp add: src)
         apply simp
        apply simp
       apply simp
       apply simp
      apply simp
     apply simp
    apply (rule e)
    done
qed

lemma runBackup_special:
  "special options \<Longrightarrow> fst (snd (runBackup pf options w)) = None"
  by (auto simp: runBackup_def special_def Let_def split_def)

lemma runBackup_unfold:
  assumes "\<not> special options"
  shows "runBackup pf options w =
     (let w3 = announced pf options w; configPath = getMachineConfigPath pf
      in if \<not> validateBackupRoot pf w3
         then (Exit 1, None,
               logError pf (js ''Backup root directory not found: ''
                             @ backupRoot (getPaths pf)) w3)
         else if \<not> allGood (checkRclone pf)
         then (Exit 1, None,
               info pf (js ''  Install from: https://rclone.org/downloads/'')
                 (logError pf (js ''rclone is not installed'') w3))
         else if \<not> existsSync w3 configPath
         then (Exit 1, None,
               info pf (js ''Run with --init flag to create initial configuration'')
                 (logError pf (js ''Machine-specific config expected at: '' @ configPath)
                   (logError pf (js ''No configuration found for this machine'') w3)))
         else case loadConfig pf (Some configPath) w3 of
                Inl e \<Rightarrow> (Exit 1, None, logError pf (message e) w3)
              | Inr config \<Rightarrow>
                  runSources pf options (clock pf (reads w)) config
                    (info pf (js ''Loaded configuration from: '' @ configPath) w3))"
  using assms
  by (simp add: runBackup_def special_def announced_def Let_def split_def now_def
        cong: sum.case_cong)

lemma runBackup_fatal:
  assumes "\<not> special options" "fatal pf options w"
  shows "fst (runBackup pf options w) = Exit 1" and "fst (snd (runBackup pf options w)) = None"
  using assms(2)
  by (auto simp: runBackup_unfold[OF assms(1)] fatal_def Let_def split: sum.splits)

lemma runBackup_loaded:
  assumes "\<not> special options" "\<not> fatal pf options w"
  shows "\<exists>config. loadedConfig pf options w = Some config
     \<and> runBackup pf options w =
         runSources pf options (clock pf (reads w)) config
           (info pf (js ''Loaded configuration from: '' @ getMachineConfigPath pf)
              (announced pf options w))"
  using assms
  by (auto simp: runBackup_unfold[OF assms(1)] loadedConfig_def fatal_def Let_def
        split: sum.splits)

lemma runBackup_summary:
  assumes "fst (snd (runBackup pf options w)) = Some summ"
  shows "\<exists>config. loadedConfig pf options w = Some config
     \<and> map source (results summ) = getEnabledSources config
     \<and> totalSources summ = length (getEnabledSources config)
     \<and> successCount summ = length (filter success (results summ))
     \<and> failCount summ = length (filter (\<lambda>r. \<not> success r) (results summ))
     \<and> skippedCount summ = int (length (sources config)) - int (length (getEnabledSources config))"
proof -
  have ns: "\<not> special options" using assms runBackup_special[of options pf w] by auto
  have nf: "\<not> fatal pf options w" using assms runBackup_fatal(2)[OF ns, of pf w] by auto
  from runBackup_loaded[OF ns nf] obtain config where
    c: "loadedConfig pf options w = Some config"
    and r: "runBackup pf options w =
         runSources pf options (clock pf (reads w)) config
           (info pf (js ''Loaded configuration from: '' @ getMachineConfigPath pf)
              (announced pf options w))" by blast
  have ne: "getEnabledSources config \<noteq> []"
    using assms r runSources_none(2)[of config pf options] by auto
  from runSources_some[OF ne, of pf options "clock pf (reads w)"
      "info pf (js ''Loaded configuration from: '' @ getMachineConfigPath pf)
              (announced pf options w)"] r assms c
  show ?thesis by auto
qed

lemma runSources_summary:
  assumes "fst (snd (runSources pf options start config w)) = Some summ"
  shows "map source (results summ) = getEnabledSources config
     \<and> totalSources summ = length (getEnabledSources config)
     \<and> successCount summ = length (filter success (results summ))
     \<and> failCount summ = length (filter (\<lambda>r. \<not> success r) (results summ))
     \<and> skippedCount summ = int (length (sources config)) - int (length (getEnabledSources config))"
proof -
  have ne: "getEnabledSources config \<noteq> []"
    using assms runSources_none(2)[of config pf options start w] by auto
  from runSources_some[OF ne, of pf options start w] assms show ?thesis by auto
qed

lemma runBackup_produces_summary:
  assumes "\<not> special options" "loadedConfig pf options w = Some config"
    "getEnabledSources config \<noteq> []"
  shows "\<exists>summ. fst (snd (runBackup pf options w)) = Some summ"
proof -
  have nf: "\<not> fatal pf options w" using assms(2) by (auto simp: loadedConfig_def split: if_splits)
  from runBackup_loaded[OF assms(1) nf] assms(2) runSources_some[OF assms(3)]
  show ?thesis by (metis option.inject)
qed


subsection \<open>The example platform\<close>

lemma ex_fields:
  "cwd exPlatform = js ''/r''" "hostname exPlatform = js ''H1''" "win32 exPlatform = False"
  "join exPlatform = joinWith (js ''/'')" "ancestors exPlatform p = []"
  "clock exPlatform k = int k" "localtime exPlatform t = (2024, 0, 1, 0, 0, 0)"
  "JSON_parse exPlatform s = (if s = js ''{}'' then Inr exConfigJson
                          else Inl (js ''Unexpected token''))"
  "JSON_stringify exPlatform c = js ''{}''"
  "spawnSync exPlatform cmd a = (Some 0, js ''/usr/bin/rclone'')"
  "rclone exPlatform args inherit w = (Closed (Some 0) [], w)"
  by (simp_all add: exPlatform_def)

lemma ex_paths:
  "getPaths exPlatform =
     \<lparr>backupRoot = js ''/r'', configDir = js ''/r/config'',
      machineConfigsDir = js ''/r/config/machine-configs'', logsDir = js ''/r/logs'',
      backupsDir = js ''/r/backups'', filtersFile = js ''/r/config/filters.txt''\<rparr>"
  "getMachineConfigPath exPlatform = js ''/r/config/machine-configs/H1.json''"
  "getMachineName exPlatform = js ''H1''"
  by (simp_all add: getPaths_def getMachineConfigPath_def getMachineName_def getBackupRoot_def
        ex_fields js_def)

lemma showNat_digit: "n < 10 \<Longrightarrow> showNat n = [of_nat (48 + n)]"
  by (subst showNat.simps) simp

lemma showNat_more: "10 \<le> n \<Longrightarrow> showNat n = showNat (n div 10) @ [of_nat (48 + n mod 10)]"
  by (subst showNat.simps) simp

lemma ex_date: "showInt 2024 = js ''2024''" "pad2 1 = js ''01''"
  by (simp_all add: showInt_def pad2_def showNat_digit showNat_more js_def)

lemma ex_logFile: "fst (getLogFilePath exPlatform w) = js ''/r/logs/syncr_20240101.log''"
  by (simp add: getLogFilePath_def getDateString_def now_def split_def Let_def ex_paths
        ex_fields ex_date)
     (simp add: js_def)

lemma ex_validate: "validateConfig exConfigJson = Inr exConfig"
  by (simp add: validateConfig_def validateSource_def exConfigJson_def exConfig_def
        exSourceA_def exSourceB_def exSourceC_def trim_def isWhiteSpace_def js_def)

lemma files_now [simp]: "files (snd (now pf w)) = files w"
  by (simp add: now_def)

lemma files_appendFileSync:
  "q \<noteq> p \<Longrightarrow> files (appendFileSync p c w) q = files w q"
  by (simp add: appendFileSync_def split: option.splits node.splits)

lemma files_log:
  assumes "\<And>w'. q \<noteq> fst (getLogFilePath pf w')"
    and "q \<notin> set (logsDir (getPaths pf) # ancestors pf (logsDir (getPaths pf)))"
  shows "files (log pf m l w) q = files w q"
proof -
  have e: "files (ensureLogDir pf w') q = files w' q" for w'
    using assms(2) by (simp add: ensureLogDir_def files_mkdirSync)
  have g: "files (snd (getLogFilePath pf w')) = files w'" for w'
    by (simp add: getLogFilePath_def getDateString_def split_def Let_def)
  have t: "files (snd (formatTimestamp pf w')) = files w'" for w'
    by (simp add: formatTimestamp_def split_def Let_def)
  have wf: "files (writeToFile pf msg w') q = files w' q" for msg w'
    using assms(1) by (simp add: writeToFile_def split_def Let_def files_appendFileSync g e)
  show ?thesis by (simp add: log_def split_def Let_def wf t)
qed

lemma ex_files_log:
  assumes "p \<noteq> js ''/r/logs''" "p \<noteq> js ''/r/logs/syncr_20240101.log''"
  shows "files (log exPlatform m l w) p = files w p"
  using assms by (intro files_log) (simp_all add: ex_logFile ex_paths ex_fields)

lemma ex_files_logs:
  assumes "p \<noteq> js ''/r/logs''" "p \<noteq> js ''/r/logs/syncr_20240101.log''"
  shows "files (info exPlatform m w) p = files w p"
    and "files (warn exPlatform m w) p = files w p"
    and "files (logError exPlatform m w) p = files w p"
    and "files (logSuccess exPlatform m w) p = files w p"
    and "files (separator exPlatform t w) p = files w p"
  using assms
  by (simp_all add: info_def warn_def logError_def logSuccess_def separator_def ex_files_log
        split: option.splits)

lemma ex_files_announced:
  assumes "p \<noteq> js ''/r/logs''" "p \<noteq> js ''/r/logs/syncr_20240101.log''"
  shows "files (announced exPlatform options w) p = files w p"
  using assms by (simp add: announced_def Let_def ex_files_logs)

lemma ex_files_atCheck:
  assumes "p \<noteq> js ''/r/logs''" "p \<noteq> js ''/r/logs/syncr_20240101.log''"
  shows "files (atCheck exPlatform src w) p = files w p"
  using assms by (simp add: atCheck_def ex_files_logs)

lemma ex_files_beforeSync:
  assumes "p \<noteq> js ''/r/logs''" "p \<noteq> js ''/r/logs/syncr_20240101.log''"
    "p \<noteq> destinationPath exPlatform src"
  shows "files (beforeSync exPlatform src w) p = files w p"
  using assms
  by (simp add: beforeSync_def Let_def ex_files_logs files_mkdirSync ex_fields ex_files_atCheck)

lemma ex_executeRclone:
  "fst (executeRclone exPlatform s d dry verbose w) = Inr ()"
  "p \<noteq> js ''/r/logs'' \<Longrightarrow> p \<noteq> js ''/r/logs/syncr_20240101.log''
     \<Longrightarrow> files (snd (executeRclone exPlatform s d dry verbose w)) p = files w p"
  by (simp_all add: executeRclone_def Let_def ex_fields ex_files_logs)

lemma ex_files_backupSource:
  assumes "p \<noteq> js ''/r/logs''" "p \<noteq> js ''/r/logs/syncr_20240101.log''"
    "p \<noteq> destinationPath exPlatform src"
  shows "files (snd (backupSource exPlatform src dry verbose w)) p = files w p"
proof (cases "existsSync (atCheck exPlatform src w) (path src)")
  case False
  then show ?thesis using assms
    by (simp add: backupSource_missing ex_files_logs ex_files_atCheck)
next
  case True
  obtain r w6 where ex: "executeRclone exPlatform (path src) (destinationPath exPlatform src)
      dry verbose (beforeSync exPlatform src w) = (r, w6)"
    by (cases "executeRclone exPlatform (path src) (destinationPath exPlatform src)
      dry verbose (beforeSync exPlatform src w)") auto
  have r: "r = Inr ()" using ex_executeRclone(1)[of "path src" "destinationPath exPlatform src"
      dry verbose "beforeSync exPlatform src w"] ex by simp
  have w6: "files w6 p = files w p"
    using ex_executeRclone(2)[OF assms(1,2), of "path src" "destinationPath exPlatform src"
      dry verbose "beforeSync exPlatform src w"] ex ex_files_beforeSync[OF assms] by simp
  show ?thesis
    using assms(1,2) w6
    by (simp add: backupSource_present[OF True] ex r Let_def split_def ex_files_logs)
qed

lemma ex_backupSource_success:
  assumes "existsSync (atCheck exPlatform src w) (path src)"
  shows "success (fst (backupSource exPlatform src dry verbose w))"
proof -
  obtain r w6 where ex: "executeRclone exPlatform (path src) (destinationPath exPlatform src)
      dry verbose (beforeSync exPlatform src w) = (r, w6)"
    by (cases "executeRclone exPlatform (path src) (destinationPath exPlatform src)
      dry verbose (beforeSync exPlatform src w)") auto
  have r: "r = Inr ()" using ex_executeRclone(1)[of "path src" "destinationPath exPlatform src"
      dry verbose "beforeSync exPlatform src w"] ex by simp
  show ?thesis by (simp add: backupSource_present[OF assms] ex r Let_def split_def)
qed

lemma ex_loadConfig:
  "loadConfig exPlatform (Some (js ''/r/config/machine-configs/H1.json''))
     (announced exPlatform options exWorld) = Inr exConfig"
proof -
  have f: "files (announced exPlatform options exWorld) (js ''/r/config/machine-configs/H1.json'')
      = Some (File (js ''{}''))"
    by (subst ex_files_announced) (simp_all add: exWorld_def js_def)
  show ?thesis
    by (simp add: loadConfig_def existsSync_def readFileSync_def f ex_fields ex_validate)
qed

lemma ex_not_fatal: "\<not> fatal exPlatform options exWorld"
proof -
  have f: "files (announced exPlatform options exWorld) (js ''/r/config/machine-configs/H1.json'')
      = Some (File (js ''{}''))"
    by (subst ex_files_announced) (simp_all add: exWorld_def js_def)
  have r: "files (announced exPlatform options exWorld) (js ''/r'') = Some Dir"
    by (subst ex_files_announced) (simp_all add: exWorld_def js_def)
  have t: "allGood (checkRclone exPlatform)"
    by (simp add: checkRclone_def findRclone_def Let_def ex_fields) (simp add: js_def)
  show ?thesis
    by (simp add: fatal_def Let_def validateBackupRoot_def existsSync_def ex_paths f r t
        ex_loadConfig)
qed

lemma ex_loaded:
  "\<not> special options \<Longrightarrow> loadedConfig exPlatform options exWorld = Some exConfig"
  by (simp add: loadedConfig_def ex_not_fatal ex_paths ex_loadConfig)

lemma ex_enabled: "getEnabledSources exConfig = [exSourceA, exSourceB]"
  by (simp add: getEnabledSources_def exConfig_def exSourceA_def exSourceB_def exSourceC_def)

subsection \<open>Initialising the configuration\<close>








subsection \<open>The run on the example machine\<close>

lemma ex_destination:
  "destinationPath exPlatform exSourceA = js ''/r/backups/H1/a''"
  by (simp add: destinationPath_def ex_paths ex_fields exSourceA_def js_def)

lemma ex_A_present:
  assumes "files w (js ''/exists'') = Some Dir"
  shows "existsSync (atCheck exPlatform exSourceA w) (path exSourceA)"
proof -
  have "files (atCheck exPlatform exSourceA w) (js ''/exists'') = files w (js ''/exists'')"
    by (rule ex_files_atCheck) (simp_all add: js_def)
  with assms show ?thesis by (simp add: existsSync_def exSourceA_def)
qed

lemma ex_B_missing:
  assumes "files w (js ''/missing'') = None"
  shows "\<not> existsSync (atCheck exPlatform exSourceB w) (path exSourceB)"
proof -
  have "files (atCheck exPlatform exSourceB w) (js ''/missing'') = files w (js ''/missing'')"
    by (rule ex_files_atCheck) (simp_all add: js_def)
  with assms show ?thesis by (simp add: existsSync_def exSourceB_def)
qed

lemma ex_results:
  assumes "files w (js ''/exists'') = Some Dir" "files w (js ''/missing'') = None"
  shows "fst (backupEach exPlatform [exSourceA, exSourceB] dry verbose [] w) =
           [fst (backupSource exPlatform exSourceA dry verbose w), sourceNotFound exSourceB]"
    and "success (fst (backupSource exPlatform exSourceA dry verbose w))"
proof -
  let ?wA = "snd (backupSource exPlatform exSourceA dry verbose w)"
  have "files ?wA (js ''/missing'') = files w (js ''/missing'')"
    by (rule ex_files_backupSource) (simp_all add: ex_destination, simp_all add: js_def)
  then have "\<not> existsSync (atCheck exPlatform exSourceB ?wA) (path exSourceB)"
    using assms(2) by (simp add: ex_B_missing)
  then have "fst (backupSource exPlatform exSourceB dry verbose ?wA) = sourceNotFound exSourceB"
    by (simp add: backupSource_missing)
  then show "fst (backupEach exPlatform [exSourceA, exSourceB] dry verbose [] w) =
           [fst (backupSource exPlatform exSourceA dry verbose w), sourceNotFound exSourceB]"
    unfolding backupEach_step backupEach.simps(1) by simp
  show "success (fst (backupSource exPlatform exSourceA dry verbose w))"
    using assms(1) by (intro ex_backupSource_success ex_A_present)
qed

lemma ex_run:
  assumes "\<not> special options"
  shows "\<exists>summ r. fst (snd (runBackup exPlatform options exWorld)) = Some summ
           \<and> results summ = [r, sourceNotFound exSourceB] \<and> success r"
proof -
  let ?wL = "info exPlatform (js ''Loaded configuration from: '' @ getMachineConfigPath exPlatform)
              (announced exPlatform options exWorld)"
  let ?w1 = "info exPlatform (js ''Processing '' @ showNat (length (getEnabledSources exConfig))
                      @ js '' source(s)'') ?wL"
  from runBackup_loaded[OF assms ex_not_fatal] ex_loaded[OF assms]
  have r: "runBackup exPlatform options exWorld =
      runSources exPlatform options (clock exPlatform (reads exWorld)) exConfig ?wL"
    by simp
  have ne: "getEnabledSources exConfig \<noteq> []" by (simp add: ex_enabled)
  from runSources_some[OF ne, of exPlatform options "clock exPlatform (reads exWorld)" ?wL]
  obtain summ where s: "fst (snd (runBackup exPlatform options exWorld)) = Some summ"
    and res: "results summ = fst (backupEach exPlatform (getEnabledSources exConfig)
        (optDryRun options) (optVerbose options) [] ?w1)"
    using r by auto
  have f1: "files ?w1 (js ''/exists'') = files exWorld (js ''/exists'')"
    by (simp add: ex_files_logs ex_files_announced js_def)
  have f2: "files ?w1 (js ''/missing'') = files exWorld (js ''/missing'')"
    by (simp add: ex_files_logs ex_files_announced js_def)
  have e1: "files ?w1 (js ''/exists'') = Some Dir" unfolding f1 by (simp add: exWorld_def js_def)
  have e2: "files ?w1 (js ''/missing'') = None" unfolding f2 by (simp add: exWorld_def js_def)
  from ex_results[OF e1 e2, of "optDryRun options" "optVerbose options"] res s
  show ?thesis by (simp add: ex_enabled)
qed

section \<open>The claims\<close>

subsection \<open>C3: the validator returns a complete configuration or a specific error\<close>

text \<open>
  Claim C3. For every parsed input the validator either returns a fully populated
  configuration or fails with an error that names the offending field or source index.
  The rules apply in order. A root that is not an object (in the sense of the program's
  test: \<open>typeof\<close> is not \<open>'object'\<close>, or the value is \<open>null\<close>) gives the
  malformed-configuration error; a \<open>machine_name\<close> that is not a string gives the error
  naming \<open>machine_name\<close>; a \<open>sources\<close> that is not an array gives the error naming
  \<open>sources\<close>; and at the first index \<open>i\<close> whose element is not well formed, a name or
  path that is not a string with something left after trimming, or an \<open>enabled\<close> that is
  not a boolean, gives the error naming index \<open>i\<close> and that field (an element that is not
  an object at all gives the error naming index \<open>i\<close>). A returned configuration carries
  the machine name and, for every element of the input, one source whose name and path are
  the non-empty trimmed strings and whose flag is the input's boolean.
\<close>

theorem validateConfig_total:
  fixes d :: "'n jsval"
  shows "(\<not> isObject d \<longrightarrow> validateConfig d = Inl ConfigNotObject)
    \<and> (isObject d \<and> \<not> isString (getProp d (js ''machine_name''))
         \<longrightarrow> validateConfig d = Inl ConfigMissingMachineName)
    \<and> (isObject d \<and> isString (getProp d (js ''machine_name''))
         \<and> \<not> isArray (getProp d (js ''sources''))
         \<longrightarrow> validateConfig d = Inl ConfigMissingSources)
    \<and> (isObject d \<and> isString (getProp d (js ''machine_name''))
         \<and> getProp d (js ''sources'') = Some (JArr xs)
         \<and> i < length xs \<and> (\<forall>j<i. wellFormedSource (xs ! j)) \<longrightarrow>
           (\<not> isObject (xs ! i) \<longrightarrow> validateConfig d = Inl (SourceNotObject i))
         \<and> (isObject (xs ! i) \<and> \<not> nonBlankString (getProp (xs ! i) (js ''name''))
              \<longrightarrow> validateConfig d = Inl (SourceMissingName i))
         \<and> (isObject (xs ! i) \<and> nonBlankString (getProp (xs ! i) (js ''name''))
              \<and> \<not> nonBlankString (getProp (xs ! i) (js ''path''))
              \<longrightarrow> validateConfig d = Inl (SourceMissingPath i))
         \<and> (isObject (xs ! i) \<and> nonBlankString (getProp (xs ! i) (js ''name''))
              \<and> nonBlankString (getProp (xs ! i) (js ''path''))
              \<and> \<not> isBoolean (getProp (xs ! i) (js ''enabled''))
              \<longrightarrow> validateConfig d = Inl (SourceMissingEnabled i)))
    \<and> (\<forall>cfg. validateConfig d = Inr cfg \<longrightarrow>
           isObject d \<and> getProp d (js ''machine_name'') = Some (JStr (machine_name cfg))
           \<and> (\<exists>ys. getProp d (js ''sources'') = Some (JArr ys)
                 \<and> list_all2 populated ys (sources cfg)))"
proof (intro conjI impI allI)
  show "validateConfig d = Inl ConfigNotObject" if "\<not> isObject d"
    using that by (auto simp: validateConfig_def isObject_def)
  show "validateConfig d = Inl ConfigMissingMachineName"
    if "isObject d \<and> \<not> isString (getProp d (js ''machine_name''))"
    using that by (auto simp: validateConfig_def isObject_def isString_def
        split: option.splits jsval.splits)
  show "validateConfig d = Inl ConfigMissingSources"
    if "isObject d \<and> isString (getProp d (js ''machine_name''))
         \<and> \<not> isArray (getProp d (js ''sources''))"
    using that by (auto simp: validateConfig_def isObject_def isString_def isArray_def
        split: option.splits jsval.splits)
next
  assume a: "isObject d \<and> isString (getProp d (js ''machine_name''))
         \<and> getProp d (js ''sources'') = Some (JArr xs)
         \<and> i < length xs \<and> (\<forall>j<i. wellFormedSource (xs ! j))"
  then obtain m where m: "getProp d (js ''machine_name'') = Some (JStr m)"
    by (auto simp: isString_def split: option.splits jsval.splits)
  note src = validateConfig_source_error[of d m xs i]
  show "validateConfig d = Inl (SourceNotObject i)" if "\<not> isObject (xs ! i)"
    using a m that src validateSource_not_object by blast
  show "validateConfig d = Inl (SourceMissingName i)"
    if "isObject (xs ! i) \<and> \<not> nonBlankString (getProp (xs ! i) (js ''name''))"
    using a m that src validateSource_bad_name by blast
  show "validateConfig d = Inl (SourceMissingPath i)"
    if "isObject (xs ! i) \<and> nonBlankString (getProp (xs ! i) (js ''name''))
              \<and> \<not> nonBlankString (getProp (xs ! i) (js ''path''))"
    using a m that src validateSource_bad_path by blast
  show "validateConfig d = Inl (SourceMissingEnabled i)"
    if "isObject (xs ! i) \<and> nonBlankString (getProp (xs ! i) (js ''name''))
              \<and> nonBlankString (getProp (xs ! i) (js ''path''))
              \<and> \<not> isBoolean (getProp (xs ! i) (js ''enabled''))"
    using a m that src validateSource_bad_enabled by blast
next
  fix cfg assume "validateConfig d = Inr cfg"
  from validateConfig_Inr[OF this]
  show "isObject d" and "getProp d (js ''machine_name'') = Some (JStr (machine_name cfg))"
    and "\<exists>ys. getProp d (js ''sources'') = Some (JArr ys) \<and> list_all2 populated ys (sources cfg)"
    by auto
qed

text \<open>One input for each rule, and the valid example configuration.\<close>

theorem validateConfig_total_witness:
  "validateConfig (JStr (js ''x'') :: unit jsval) = Inl ConfigNotObject
   \<and> validateConfig (JObj [] :: unit jsval) = Inl ConfigMissingMachineName
   \<and> validateConfig (JObj [(js ''machine_name'', JStr (js ''H1''))] :: unit jsval)
       = Inl ConfigMissingSources
   \<and> validateConfig exBlankPathJson = Inl (SourceMissingPath 1)
   \<and> validateConfig exConfigJson = Inr exConfig
   \<and> getProp exConfigJson (js ''machine_name'') = Some (JStr (machine_name exConfig))"
proof -
  have a: "validateConfig (JStr (js ''x'') :: unit jsval) = Inl ConfigNotObject"
    using validateConfig_total[where d = "JStr (js ''x'') :: unit jsval", THEN conjunct1]
    by (simp add: isObject_def)
  have b: "validateConfig (JObj [] :: unit jsval) = Inl ConfigMissingMachineName"
    using validateConfig_total[where d = "JObj [] :: unit jsval", THEN conjunct2, THEN conjunct1]
    by (simp add: isObject_def isString_def)
  have c: "validateConfig (JObj [(js ''machine_name'', JStr (js ''H1''))] :: unit jsval)
       = Inl ConfigMissingSources"
    using validateConfig_total[where d = "JObj [(js ''machine_name'', JStr (js ''H1''))] :: unit jsval",
        THEN conjunct2, THEN conjunct2, THEN conjunct1]
    by (simp add: isObject_def isString_def isArray_def js_keys_distinct)
  let ?x0 = "JObj [(js ''name'', JStr (js ''a'')), (js ''path'', JStr (js ''/exists'')),
                    (js ''enabled'', JBool True)] :: unit jsval"
  let ?x1 = "JObj [(js ''name'', JStr (js ''b'')), (js ''path'', JStr (js ''  '')),
                    (js ''enabled'', JBool True)] :: unit jsval"
  have w0: "wellFormedSource ?x0"
    by (simp add: wellFormedSource_def isObject_def nonBlankString_def isBoolean_def
          js_keys_distinct) (simp add: trim_def isWhiteSpace_def js_def)
  have n1: "nonBlankString (getProp ?x1 (js ''name''))"
    by (simp add: nonBlankString_def) (simp add: trim_def isWhiteSpace_def js_def)
  have p1: "\<not> nonBlankString (getProp ?x1 (js ''path''))"
    by (simp add: nonBlankString_def js_keys_distinct) (simp add: trim_def isWhiteSpace_def js_def)
  have d: "validateConfig exBlankPathJson = Inl (SourceMissingPath 1)"
    using validateConfig_total[where d = exBlankPathJson and xs = "[?x0, ?x1]" and i = 1,
        THEN conjunct2, THEN conjunct2, THEN conjunct2, THEN conjunct1] w0 n1 p1
    by (simp add: exBlankPathJson_def isObject_def isString_def js_keys_distinct)
  have e: "validateConfig exConfigJson = Inr exConfig" by (rule ex_validate)
  have f: "getProp exConfigJson (js ''machine_name'') = Some (JStr (machine_name exConfig))"
    using validateConfig_total[where d = exConfigJson,
        THEN conjunct2, THEN conjunct2, THEN conjunct2, THEN conjunct2] e
    by blast
  from a b c d e f show ?thesis by blast
qed

subsection \<open>C8: whitespace around names and paths does not change the result\<close>

text \<open>
  Claim C8. Validation trims: every source of a returned configuration has as name and
  path the trimmed strings of the input, which trimming again leaves as they are; and
  validating an input gives the same result as validating that input with whitespace
  added before and after the name and path strings of its sources (\<open>padConfig\<close>, with any
  whitespace-only paddings, chosen per source). The validator is a function of the input
  value and builds a new record: the input is not written to.
\<close>

theorem validateConfig_trim:
  fixes d :: "'n jsval"
  shows "(list_all wsPadding ps \<longrightarrow> validateConfig (padConfig ps d) = validateConfig d)
    \<and> (\<forall>cfg. validateConfig d = Inr cfg \<longrightarrow>
          (\<exists>xs. getProp d (js ''sources'') = Some (JArr xs) \<and> list_all2 populated xs (sources cfg))
          \<and> list_all (\<lambda>s. trim (name s) = name s \<and> trim (path s) = path s) (sources cfg))"
proof (intro conjI impI allI)
  show "validateConfig (padConfig ps d) = validateConfig d" if "list_all wsPadding ps"
    using that by (rule validateConfig_pad)
next
  fix cfg assume v: "validateConfig d = Inr cfg"
  from validateConfig_Inr[OF v] obtain xs where
    xs: "getProp d (js ''sources'') = Some (JArr xs)" "list_all2 populated xs (sources cfg)"
    by blast
  then show "\<exists>xs. getProp d (js ''sources'') = Some (JArr xs) \<and> list_all2 populated xs (sources cfg)"
    by blast
  from xs(2) show "list_all (\<lambda>s. trim (name s) = name s \<and> trim (path s) = path s) (sources cfg)"
    by (induction rule: list_all2_induct) (simp_all add: populated_trimmed)
qed

text \<open>The example configuration with blanks, tabs, a line feed and an ideographic space
  added around names and paths validates to the same configuration.\<close>

theorem validateConfig_trim_witness:
  "list_all wsPadding exPadding
   \<and> padConfig exPadding exConfigJson \<noteq> exConfigJson
   \<and> validateConfig (padConfig exPadding exConfigJson) = Inr exConfig
   \<and> list_all (\<lambda>s. trim (name s) = name s \<and> trim (path s) = path s) (sources exConfig)"
proof -
  have p: "list_all wsPadding exPadding"
    by (simp add: exPadding_def blank_def isWhiteSpace_def)
  have n: "padConfig exPadding exConfigJson \<noteq> exConfigJson"
    by (simp add: exPadding_def exConfigJson_def padProp_def js_keys_distinct)
  from validateConfig_trim[where ps = exPadding and d = exConfigJson] p ex_validate
  have "validateConfig (padConfig exPadding exConfigJson) = Inr exConfig"
    and "list_all (\<lambda>s. trim (name s) = name s \<and> trim (path s) = path s) (sources exConfig)"
    by auto
  with p n show ?thesis by blast
qed

subsection \<open>C6: the arguments handed to the sync engine\<close>

text \<open>
  Claim C6, amended. The argument list is exactly
  \<open>sync <source> <dest> --checksum --delete-during [--dry-run] [--verbose --progress]
  [--filter-from <file>]\<close>: the five leading tokens always, \<open>--dry-run\<close> exactly when
  \<open>dryRun\<close> is set, \<open>--verbose --progress\<close> exactly when \<open>verbose\<close> is set, and the
  filter pair exactly when the filter-rules file exists, the filter pair last. It holds
  the same tokens as the list of the contract (\<open>contractArgs\<close>, filter pair first), and the
  two lists are equal exactly when the filter file is absent or neither option is set.
\<close>

theorem buildRcloneArgs_order:
  "buildRcloneArgs pf s d dry verbose w =
     [js ''sync'', s, d, js ''--checksum'', js ''--delete-during'']
     @ (if dry then [js ''--dry-run''] else [])
     @ (if verbose then [js ''--verbose'', js ''--progress''] else [])
     @ (if existsSync w (filtersFile (getPaths pf))
        then [js ''--filter-from'', filtersFile (getPaths pf)] else [])
   \<and> mset (buildRcloneArgs pf s d dry verbose w) = mset (contractArgs pf s d dry verbose w)
   \<and> (buildRcloneArgs pf s d dry verbose w = contractArgs pf s d dry verbose w)
       = (\<not> existsSync w (filtersFile (getPaths pf)) \<or> (\<not> dry \<and> \<not> verbose))"
proof (intro conjI)
  have ne: "js ''--dry-run'' \<noteq> js ''--filter-from''" "js ''--verbose'' \<noteq> js ''--filter-from''"
    by (simp_all add: js_def)
  show "(buildRcloneArgs pf s d dry verbose w = contractArgs pf s d dry verbose w)
       = (\<not> existsSync w (filtersFile (getPaths pf)) \<or> (\<not> dry \<and> \<not> verbose))"
    using ne by (auto simp: buildRcloneArgs_def contractArgs_def)
qed (simp_all add: buildRcloneArgs_def contractArgs_def)

theorem buildRcloneArgs_order_witness:
  "buildRcloneArgs exPlatform (js ''/exists'') (js ''/r/backups/H1/a'') True True exWorldFilters
     = [js ''sync'', js ''/exists'', js ''/r/backups/H1/a'', js ''--checksum'',
        js ''--delete-during'', js ''--dry-run'', js ''--verbose'', js ''--progress'',
        js ''--filter-from'', js ''/r/config/filters.txt'']"
proof -
  have "existsSync exWorldFilters (js ''/r/config/filters.txt'')"
    by (simp add: existsSync_def exWorldFilters_def)
  with buildRcloneArgs_order[of exPlatform "js ''/exists''" "js ''/r/backups/H1/a''" True True
      exWorldFilters, THEN conjunct1]
  show ?thesis by (simp add: ex_paths)
qed

text \<open>
  The order of Claim C6 as it is written (filter pair before \<open>--dry-run\<close>) is not the
  order of the program: with the filter file present and \<open>dryRun\<close> set, \<open>--dry-run\<close>
  comes first.
\<close>

theorem buildRcloneArgs_contract_counterexample:
  "buildRcloneArgs exPlatform (js ''/exists'') (js ''/r/backups/H1/a'') True False exWorldFilters
     = [js ''sync'', js ''/exists'', js ''/r/backups/H1/a'', js ''--checksum'',
        js ''--delete-during'', js ''--dry-run'', js ''--filter-from'',
        js ''/r/config/filters.txt'']
   \<and> contractArgs exPlatform (js ''/exists'') (js ''/r/backups/H1/a'') True False exWorldFilters
     = [js ''sync'', js ''/exists'', js ''/r/backups/H1/a'', js ''--checksum'',
        js ''--delete-during'', js ''--filter-from'', js ''/r/config/filters.txt'',
        js ''--dry-run'']
   \<and> buildRcloneArgs exPlatform (js ''/exists'') (js ''/r/backups/H1/a'') True False
         exWorldFilters
       \<noteq> contractArgs exPlatform (js ''/exists'') (js ''/r/backups/H1/a'') True False
           exWorldFilters"
proof -
  have e: "existsSync exWorldFilters (js ''/r/config/filters.txt'')"
    by (simp add: existsSync_def exWorldFilters_def)
  have ne: "js ''--dry-run'' \<noteq> js ''--filter-from''" by (simp add: js_def)
  show ?thesis using e ne by (simp add: buildRcloneArgs_def contractArgs_def ex_paths)
qed

subsection \<open>C10: a result has a duration exactly when it is a success\<close>

text \<open>
  Claim C10. The result of processing one source has a duration if and only if its
  \<open>success\<close> flag is set, and an error message if and only if it is not: a successful
  sync records the difference of two clock readings, the second taken after the engine
  returned and the first at the start of \<open>backupSource\<close>; the two failure branches
  (source path missing, sync executor failed) record no duration.
\<close>

theorem duration_iff_success:
  "(duration (fst (backupSource pf src dry verbose w)) \<noteq> None)
       = success (fst (backupSource pf src dry verbose w))
   \<and> (error (fst (backupSource pf src dry verbose w)) = None)
       = success (fst (backupSource pf src dry verbose w))
   \<and> (success (fst (backupSource pf src dry verbose w)) \<longrightarrow>
        (\<exists>k. duration (fst (backupSource pf src dry verbose w))
               = Some (clock pf k - clock pf (reads w))))"
  using backupSource_result[of pf src dry verbose w] by blast

text \<open>On the example machine source \<open>a\<close> succeeds and has a duration; source \<open>b\<close>,
  whose path is missing, fails and has none.\<close>

theorem duration_iff_success_witness:
  "success (fst (backupSource exPlatform exSourceA False False exWorld))
   \<and> duration (fst (backupSource exPlatform exSourceA False False exWorld)) \<noteq> None
   \<and> \<not> success (fst (backupSource exPlatform exSourceB False False exWorld))
   \<and> duration (fst (backupSource exPlatform exSourceB False False exWorld)) = None"
proof -
  have a: "success (fst (backupSource exPlatform exSourceA False False exWorld))"
    by (intro ex_backupSource_success ex_A_present) (simp add: exWorld_def js_def)
  have "\<not> existsSync (atCheck exPlatform exSourceB exWorld) (path exSourceB)"
    by (intro ex_B_missing) (simp add: exWorld_def js_def)
  then have b: "\<not> success (fst (backupSource exPlatform exSourceB False False exWorld))"
    by (simp add: backupSource_missing sourceNotFound_def)
  from a b duration_iff_success[of exPlatform exSourceA False False exWorld]
    duration_iff_success[of exPlatform exSourceB False False exWorld]
  show ?thesis by simp
qed

subsection \<open>C5: a source whose path is missing\<close>



subsection \<open>C7: the destination path\<close>



subsection \<open>C9: initialising never overwrites a configuration\<close>



subsection \<open>C2: the counts of the summary\<close>

text \<open>
  Claim C2. Whenever a run builds a summary, from a configuration with \<open>n\<close> sources of
  which \<open>k\<close> are enabled, \<open>totalSources = k\<close>,
  \<open>successCount + failCount = totalSources\<close> and \<open>skippedCount = n - k\<close>, whatever the
  outcome of each source; \<open>successCount\<close> and \<open>failCount\<close> count the successful and the
  failed results. This holds for the part of the run after loading, for every
  configuration, and for the whole of \<open>runBackup\<close> with the configuration it loaded.
\<close>

theorem summary_counts:
  "(fst (snd (runSources pf options start config w)) = Some summ \<longrightarrow>
      totalSources summ = length (filter enabled (sources config))
      \<and> successCount summ + failCount summ = totalSources summ
      \<and> skippedCount summ
          = int (length (sources config)) - int (length (filter enabled (sources config)))
      \<and> successCount summ = length (filter success (results summ))
      \<and> failCount summ = length (filter (\<lambda>r. \<not> success r) (results summ)))
   \<and> (fst (snd (runBackup pf options w)) = Some summ \<longrightarrow>
        (\<exists>config. loadedConfig pf options w = Some config
           \<and> totalSources summ = length (filter enabled (sources config))
           \<and> successCount summ + failCount summ = totalSources summ
           \<and> skippedCount summ
               = int (length (sources config)) - int (length (filter enabled (sources config)))
           \<and> successCount summ = length (filter success (results summ))
           \<and> failCount summ = length (filter (\<lambda>r. \<not> success r) (results summ))))"
proof (intro conjI impI)
  assume a: "fst (snd (runSources pf options start config w)) = Some summ"
  note s = runSources_summary[OF a]
  have l: "length (results summ) = length (getEnabledSources config)"
    using s by (metis length_map)
  show "totalSources summ = length (filter enabled (sources config))"
    and "skippedCount summ
          = int (length (sources config)) - int (length (filter enabled (sources config)))"
    and "successCount summ = length (filter success (results summ))"
    and "failCount summ = length (filter (\<lambda>r. \<not> success r) (results summ))"
    using s by (simp_all add: getEnabledSources_def)
  show "successCount summ + failCount summ = totalSources summ"
    using s l count_success[of "results summ"] by simp
next
  assume a: "fst (snd (runBackup pf options w)) = Some summ"
  from runBackup_summary[OF a] obtain config where
    c: "loadedConfig pf options w = Some config"
    and s: "map source (results summ) = getEnabledSources config"
      "totalSources summ = length (getEnabledSources config)"
      "successCount summ = length (filter success (results summ))"
      "failCount summ = length (filter (\<lambda>r. \<not> success r) (results summ))"
      "skippedCount summ = int (length (sources config)) - int (length (getEnabledSources config))"
    by blast
  have l: "length (results summ) = length (getEnabledSources config)"
    using s(1) by (metis length_map)
  have "successCount summ + failCount summ = totalSources summ"
    using s l count_success[of "results summ"] by simp
  with c s show "\<exists>config. loadedConfig pf options w = Some config
           \<and> totalSources summ = length (filter enabled (sources config))
           \<and> successCount summ + failCount summ = totalSources summ
           \<and> skippedCount summ
               = int (length (sources config)) - int (length (filter enabled (sources config)))
           \<and> successCount summ = length (filter success (results summ))
           \<and> failCount summ = length (filter (\<lambda>r. \<not> success r) (results summ))"
    by (auto simp: getEnabledSources_def)
qed

text \<open>The scenario of the specification: \<open>a\<close> enabled and present, \<open>b\<close> enabled and
  missing, \<open>c\<close> disabled, the engine succeeding.\<close>

theorem summary_counts_witness:
  "\<exists>summ. fst (snd (runBackup exPlatform exOptions exWorld)) = Some summ
      \<and> totalSources summ = 2 \<and> successCount summ = 1 \<and> failCount summ = 1
      \<and> skippedCount summ = 1"
proof -
  have ns: "\<not> special exOptions" by (simp add: special_def exOptions_def)
  from ex_run[OF ns] obtain summ r where
    s: "fst (snd (runBackup exPlatform exOptions exWorld)) = Some summ"
    and r: "results summ = [r, sourceNotFound exSourceB]" "success r" by blast
  from summary_counts[where pf = exPlatform and options = exOptions and summ = summ
      and w = exWorld, THEN conjunct2, THEN mp, OF s]
  obtain config where c: "loadedConfig exPlatform exOptions exWorld = Some config"
    and t: "totalSources summ = length (filter enabled (sources config))"
      "skippedCount summ
         = int (length (sources config)) - int (length (filter enabled (sources config)))"
      "successCount summ = length (filter success (results summ))"
      "failCount summ = length (filter (\<lambda>r. \<not> success r) (results summ))"
    by blast
  have "config = exConfig" using c ex_loaded[OF ns] by simp
  then have n: "totalSources summ = 2" "skippedCount summ = 1"
    using t(1,2) by (simp_all add: exConfig_def exSourceA_def exSourceB_def exSourceC_def)
  have k: "successCount summ = 1" "failCount summ = 1"
    using t(3,4) r by (simp_all add: sourceNotFound_def)
  show ?thesis
    by (rule exI[of _ summ], intro conjI, rule s, rule n(1), rule k(1), rule k(2), rule n(2))
qed

subsection \<open>C4: the results follow the order of the enabled sources\<close>

text \<open>
  Claim C4. The results of a summary are, in order, one for each enabled source of the
  configuration, in the order in which these sources stand in the configuration.
\<close>

theorem results_order:
  "(fst (snd (runSources pf options start config w)) = Some summ \<longrightarrow>
      map source (results summ) = filter enabled (sources config)
      \<and> length (results summ) = length (filter enabled (sources config)))
   \<and> (fst (snd (runBackup pf options w)) = Some summ \<longrightarrow>
        (\<exists>config. loadedConfig pf options w = Some config
           \<and> map source (results summ) = filter enabled (sources config)
           \<and> length (results summ) = length (filter enabled (sources config))))"
proof (intro conjI impI)
  assume a: "fst (snd (runSources pf options start config w)) = Some summ"
  from runSources_summary[OF a]
  show m: "map source (results summ) = filter enabled (sources config)"
    by (simp add: getEnabledSources_def)
  then show "length (results summ) = length (filter enabled (sources config))"
    by (metis length_map)
next
  assume a: "fst (snd (runBackup pf options w)) = Some summ"
  from runBackup_summary[OF a] obtain config where
    c: "loadedConfig pf options w = Some config"
    and s: "map source (results summ) = getEnabledSources config" by blast
  have "length (results summ) = length (getEnabledSources config)"
    using s by (metis length_map)
  with c s show "\<exists>config. loadedConfig pf options w = Some config
           \<and> map source (results summ) = filter enabled (sources config)
           \<and> length (results summ) = length (filter enabled (sources config))"
    by (auto simp: getEnabledSources_def)
qed

theorem results_order_witness:
  "\<exists>summ. fst (snd (runBackup exPlatform exOptions exWorld)) = Some summ
      \<and> map source (results summ) = [exSourceA, exSourceB]"
proof -
  have ns: "\<not> special exOptions" by (simp add: special_def exOptions_def)
  from ex_run[OF ns] obtain summ where
    s: "fst (snd (runBackup exPlatform exOptions exWorld)) = Some summ" by blast
  from results_order[where pf = exPlatform and options = exOptions and summ = summ
      and w = exWorld, THEN conjunct2, THEN mp, OF s]
  obtain config where c: "loadedConfig exPlatform exOptions exWorld = Some config"
    and m: "map source (results summ) = filter enabled (sources config)" by blast
  have "config = exConfig" using c ex_loaded[OF ns] by simp
  then have m2: "map source (results summ) = [exSourceA, exSourceB]"
    using m ex_enabled by (simp add: getEnabledSources_def)
  show ?thesis
    by (rule exI[of _ summ], intro conjI, rule s, rule m2)
qed

subsection \<open>C1: the exit code\<close>




end
